theory Spec2Isabelle
  imports Complex_Main "HOL-Library.Sublist" "HOL-Library.Char_ord" "HOL-Library.List_Lexorder"
begin

section \<open>JavaScript values\<close>

text \<open>
  Numbers. Every number the service compares or clamps arrives in JSON (the request
  body, the vector store's reply), so it is a double that is not NaN: a finite double,
  which is a real number, or an infinity (what \<^verbatim>\<open>JSON.parse\<close> makes of \<^verbatim>\<open>1e999\<close>).
  On such values \<^verbatim>\<open>>=\<close>, \<^verbatim>\<open>Math.min\<close> and \<^verbatim>\<open>Math.max\<close> are exact, so they are the
  order of the extended reals.
\<close>

datatype jsnumber = NegInfinity | Num real | PosInfinity

fun js_le :: "jsnumber \<Rightarrow> jsnumber \<Rightarrow> bool" where
  "js_le NegInfinity b = True"
| "js_le (Num x) NegInfinity = False"
| "js_le (Num x) (Num y) = (x \<le> y)"
| "js_le (Num x) PosInfinity = True"
| "js_le PosInfinity PosInfinity = True"
| "js_le PosInfinity b = False"

definition js_ge :: "jsnumber \<Rightarrow> jsnumber \<Rightarrow> bool" where
  "js_ge a b = js_le b a"

definition Math_min :: "jsnumber \<Rightarrow> jsnumber \<Rightarrow> jsnumber" where
  "Math_min a b = (if js_le a b then a else b)"

definition Math_max :: "jsnumber \<Rightarrow> jsnumber \<Rightarrow> jsnumber" where
  "Math_max a b = (if js_le a b then b else a)"

text \<open>
  The literal \<^verbatim>\<open>0.5\<close> is the double one half. The literal \<^verbatim>\<open>0.6\<close> is the double nearest
  to six tenths, \<open>5404319552844595 / 2^53\<close>; it is the number that JavaScript prints as
  \<^verbatim>\<open>0.6\<close> and the one a score is compared with.
\<close>

definition lit_0_5 :: jsnumber where
  "lit_0_5 = Num (1 / 2)"

definition lit_0_6 :: jsnumber where
  "lit_0_6 = Num (5404319552844595 / 9007199254740992)"

text \<open>
  Strings are lists of code units; the model covers the strings whose code units are
  below 256 (ASCII and Latin-1), which is what \<^typ>\<open>char\<close> holds. Within that range
  \<^verbatim>\<open>toLowerCase\<close> maps A-Z and the accented capitals 0xC0-0xDE (except the
  multiplication sign 0xD7) to the code unit 32 higher, and the white space of \<^verbatim>\<open>\s\<close>
  and \<^verbatim>\<open>trim\<close> is TAB, LF, VT, FF, CR, SPACE and NBSP.
\<close>

definition isUpper :: "char \<Rightarrow> bool" where
  "isUpper c = (let n = (of_char c :: nat) in
     (65 \<le> n \<and> n \<le> 90) \<or> (192 \<le> n \<and> n \<le> 222 \<and> n \<noteq> 215))"

definition lowerChar :: "char \<Rightarrow> char" where
  "lowerChar c = (if isUpper c then char_of ((of_char c :: nat) + 32) else c)"

definition toLowerCase :: "string \<Rightarrow> string" where
  "toLowerCase s = map lowerChar s"

definition isSpace :: "char \<Rightarrow> bool" where
  "isSpace c = ((of_char c :: nat) \<in> {9, 10, 11, 12, 13, 32, 160})"

definition isDigit :: "char \<Rightarrow> bool" where
  "isDigit c = (let n = (of_char c :: nat) in 48 \<le> n \<and> n \<le> 57)"

definition trim :: "string \<Rightarrow> string" where
  "trim s = rev (dropWhile isSpace (rev (dropWhile isSpace s)))"

text \<open>\<^verbatim>\<open>s.includes(k)\<close>: some position of \<open>s\<close> starts with \<open>k\<close>.\<close>

fun str_includes :: "string \<Rightarrow> string \<Rightarrow> bool" where
  "str_includes [] k = (k = [])"
| "str_includes (c # cs) k = (prefix k (c # cs) \<or> str_includes cs k)"

definition endsWith :: "string \<Rightarrow> string \<Rightarrow> bool" where
  "endsWith s suf = (length suf \<le> length s \<and> drop (length s - length suf) s = suf)"

text \<open>\<^verbatim>\<open>xs.slice(s, e)\<close> for indices that are not negative.\<close>

definition slice :: "'a list \<Rightarrow> nat \<Rightarrow> nat \<Rightarrow> 'a list" where
  "slice xs s e = take (e - s) (drop s xs)"

text \<open>\<^verbatim>\<open>parts.join(sep)\<close>.\<close>

fun join :: "string \<Rightarrow> string list \<Rightarrow> string" where
  "join sep [] = []"
| "join sep [x] = x"
| "join sep (x # y # ys) = x @ sep @ join sep (y # ys)"

text \<open>The decimal digits of a natural number, as a template literal prints it.\<close>

function decimal :: "nat \<Rightarrow> string" where
  "decimal n = (if n < 10 then [char_of (48 + n)]
                else decimal (n div 10) @ [char_of (48 + n mod 10)])"
  by pat_completeness auto
termination
  by (relation "measure (\<lambda>n. n)") auto

declare decimal.simps [simp del]

text \<open>
  JSON values, as \<^verbatim>\<open>JSON.parse\<close> returns them and as the handlers build them with
  object literals. An object is the list of its properties in insertion order.
\<close>

datatype json =
    JNull
  | JBool bool
  | JNum jsnumber
  | JStr string
  | JArr "json list"
  | JObj "(string \<times> json) list"

definition property :: "json \<Rightarrow> string \<Rightarrow> json option" where
  "property v k = (case v of JObj ps \<Rightarrow> map_of ps k | _ \<Rightarrow> None)"

text \<open>The operator \<^verbatim>\<open>in\<close> throws a TypeError when its right operand is a primitive.\<close>

fun isPrimitive :: "json \<Rightarrow> bool" where
  "isPrimitive (JArr xs) = False"
| "isPrimitive (JObj ps) = False"
| "isPrimitive v = True"

text \<open>
  Thrown values. A plain \<^verbatim>\<open>Error\<close> that leaves a handler is answered with HTTP 500 by
  the framework, a \<^verbatim>\<open>BadRequestException\<close> with HTTP 400; a handler that returns is
  answered with 201 when it is a \<^verbatim>\<open>@Post\<close> and 200 when it is a \<^verbatim>\<open>@Get\<close>.
\<close>

datatype exn = Error string | BadRequestException string

fun message :: "exn \<Rightarrow> string" where
  "message (Error m) = m"
| "message (BadRequestException m) = m"

datatype http_method = GET | POST

fun httpStatus :: "http_method \<Rightarrow> exn + 'a \<Rightarrow> nat" where
  "httpStatus m (Inl (BadRequestException msg)) = 400"
| "httpStatus m (Inl (Error msg)) = 500"
| "httpStatus POST (Inr v) = 201"
| "httpStatus GET (Inr v) = 200"

section \<open>Documents, messages and the outside world\<close>

record document =
  pageContent :: string
  metadata :: "(string \<times> json) list"

type_synonym scored = "document \<times> jsnumber"

text \<open>
  The content of a chat model's message is a string or a list of content blocks;
  \<open>toString\<close> is what \<^verbatim>\<open>output.toString()\<close> returns.
\<close>

datatype message_content = TextContent string | BlockContent "json list"

record ai_message =
  content :: message_content
  toString :: string

record chat_model =
  modelName :: string
  modelTemperature :: jsnumber

text \<open>
  What the chat model is invoked with. \<open>RagPrompt sys ctx q\<close> is the system message
  \<open>sys\<close> and the user message \<^verbatim>\<open>Context: {context}\n\nQuery: {query}\<close> filled with \<open>ctx\<close>
  and \<open>q\<close>; \<open>AnalysisPrompt ctx\<close> is the fixed system message of
  \<^verbatim>\<open>generateFinancialAnalysis\<close> with the user message filled with \<open>ctx\<close>.
\<close>

datatype prompt = RagPrompt string string string | AnalysisPrompt string

text \<open>
  Every call that leaves the process is an event, appended to the trace in the order
  the calls are made. Console output is not modelled.
\<close>

datatype event =
    WriteFile string string
  | CsvLoad string
  | EmbedQuery string
  | AddDocuments "document list"
  | SetTimeout nat
  | Unlink string
  | SimilaritySearch "jsnumber list" jsnumber
  | InvokeModel chat_model prompt

text \<open>
  The outside world: what each call answers, given the events so far (so that the same
  call can succeed once and fail later). \<open>Inl\<close> and \<open>Some\<close> are a rejected promise.
  \<open>JSON_parse\<close> is \<open>None\<close> where \<^verbatim>\<open>JSON.parse\<close> throws; \<open>toFixed1\<close> is
  \<^verbatim>\<open>(score * 100).toFixed(1)\<close>; \<open>pathJoin\<close> is \<^verbatim>\<open>path.join\<close>.
\<close>

record env =
  dirname :: string
  dateNow :: "event list \<Rightarrow> nat"
  toISOString :: "event list \<Rightarrow> string"
  pathJoin :: "string list \<Rightarrow> string"
  writeFile :: "event list \<Rightarrow> string \<Rightarrow> string \<Rightarrow> exn option"
  csvLoad :: "event list \<Rightarrow> string \<Rightarrow> exn + document list"
  unlink :: "event list \<Rightarrow> string \<Rightarrow> exn option"
  embedQuery :: "event list \<Rightarrow> string \<Rightarrow> exn + jsnumber list"
  addDocuments :: "event list \<Rightarrow> document list \<Rightarrow> exn option"
  similaritySearchVectorWithScore ::
    "event list \<Rightarrow> jsnumber list \<Rightarrow> jsnumber \<Rightarrow> exn + scored list"
  invoke :: "event list \<Rightarrow> chat_model \<Rightarrow> prompt \<Rightarrow> exn + ai_message"
  JSON_parse :: "string \<Rightarrow> json option"
  toFixed1 :: "jsnumber \<Rightarrow> string"

text \<open>The controller's fields.\<close>

record state =
  isInitialized :: bool
  model :: chat_model
  trace :: "event list"

section \<open>AppService: chat\<close>

definition relevanceThreshold :: jsnumber where
  "relevanceThreshold = lit_0_5"

definition performSimilaritySearch ::
  "env \<Rightarrow> event list \<Rightarrow> string \<Rightarrow> jsnumber \<Rightarrow> (exn + scored list) \<times> event list" where
  "performSimilaritySearch E tr query limit =
     (case embedQuery E tr query of
        Inl e \<Rightarrow> (Inl e, tr @ [EmbedQuery query])
      | Inr queryVector \<Rightarrow>
          (let tr1 = tr @ [EmbedQuery query] in
           case similaritySearchVectorWithScore E tr1 queryVector limit of
             Inl e \<Rightarrow> (Inl e, tr1 @ [SimilaritySearch queryVector limit])
           | Inr results \<Rightarrow>
               (Inr (filter (\<lambda>(doc, score). js_ge score relevanceThreshold) results),
                tr1 @ [SimilaritySearch queryVector limit])))"

definition maximumPrompt :: string where
  "maximumPrompt =
     ''You are a financial data analyst. From the provided transaction records, identify and present the highest value transactions. ''
     @ [CHR 0x0A] @
     ''    Format your response as: \"Amount: $X.XX | Type: [transaction_type] | Additional details if relevant\"''
     @ [CHR 0x0A] @
     ''    Focus on the transactions with the highest amounts and provide clear, actionable insights.''"

definition minimumPrompt :: string where
  "minimumPrompt =
     ''You are a financial data analyst. From the provided transaction records, identify and present the lowest value transactions.''
     @ [CHR 0x0A] @
     ''    Format your response clearly with amount and transaction type.''"

definition summaryPrompt :: string where
  "summaryPrompt =
     ''You are a financial data analyst. Provide a comprehensive summary of the transaction data.''
     @ [CHR 0x0A] @
     ''    Include key metrics like total amounts, transaction types, and notable patterns.''"

definition patternPrompt :: string where
  "patternPrompt =
     ''You are a financial data analyst. Analyze the transaction data for patterns and trends.''
     @ [CHR 0x0A] @
     ''    Highlight recurring transaction types, amounts, and any notable behaviors.''"

definition defaultPrompt :: string where
  "defaultPrompt =
     ''You are a helpful financial data analyst. Analyze the provided transaction records and answer the user's query clearly and concisely.''
     @ [CHR 0x0A] @
     ''  Present the information in an organized format with amounts, transaction types, and relevant details.''"

definition getSystemPrompt :: "string \<Rightarrow> string" where
  "getSystemPrompt query =
     (let lowerQuery = toLowerCase query in
      if str_includes lowerQuery ''maximum'' \<or>
         str_includes lowerQuery ''highest'' \<or>
         str_includes lowerQuery ''largest''
      then maximumPrompt
      else if str_includes lowerQuery ''minimum'' \<or>
              str_includes lowerQuery ''lowest'' \<or>
              str_includes lowerQuery ''smallest''
      then minimumPrompt
      else if str_includes lowerQuery ''summary'' \<or> str_includes lowerQuery ''overview''
      then summaryPrompt
      else if str_includes lowerQuery ''pattern'' \<or> str_includes lowerQuery ''trend''
      then patternPrompt
      else defaultPrompt)"

text \<open>
  One line of the context handed to the model: \<^verbatim>\<open>Record ${index + 1} (Relevance:
  ${(score * 100).toFixed(1)}%):\n${doc.pageContent}\<close>.
\<close>

definition recordLine :: "env \<Rightarrow> nat \<times> scored \<Rightarrow> string" where
  "recordLine E = (\<lambda>(index, (doc, score)).
     ''Record '' @ decimal (index + 1) @ '' (Relevance: '' @ toFixed1 E score @ ''%):''
     @ [CHR 0x0A] @ pageContent doc)"

definition generateResponse ::
  "env \<Rightarrow> event list \<Rightarrow> string \<Rightarrow> scored list \<Rightarrow> chat_model \<Rightarrow>
   (exn + ai_message) \<times> event list" where
  "generateResponse E tr query searchResults m =
     (let systemPrompt = getSystemPrompt query;
          formattedContext =
            join ([CHR 0x0A, CHR 0x0A] @ ''---'' @ [CHR 0x0A, CHR 0x0A])
              (map (recordLine E) (enumerate 0 searchResults));
          p = RagPrompt systemPrompt formattedContext query
      in (invoke E tr m p, tr @ [InvokeModel m p]))"

section \<open>AppService: summarization\<close>

definition getTransactionData ::
  "env \<Rightarrow> event list \<Rightarrow> (exn + scored list) \<times> event list" where
  "getTransactionData E tr =
     (let q = ''financial transaction bank payment deposit withdrawal expense income'' in
      case embedQuery E tr q of
        Inl e \<Rightarrow> (Inl e, tr @ [EmbedQuery q])
      | Inr vector \<Rightarrow>
          (let tr1 = tr @ [EmbedQuery q] in
           case similaritySearchVectorWithScore E tr1 vector (Num 50) of
             Inl e \<Rightarrow> (Inl e, tr1 @ [SimilaritySearch vector (Num 50)])
           | Inr results \<Rightarrow>
               (Inr (filter (\<lambda>(doc, score). js_ge score lit_0_6) results),
                tr1 @ [SimilaritySearch vector (Num 50)])))"

text \<open>
  \<^verbatim>\<open>jsonStr.replace(/```json\s*|\s*```/g, '')\<close>. At each position, from the left: the
  first alternative matches the fence \<^verbatim>\<open>```json\<close> and all white space after it; the
  second matches all white space at the position when three backquotes follow it
  (with less white space the next character is white space, not a backquote). A match
  is removed and the scan goes on after it; otherwise the character is kept.
\<close>

function stripFences :: "string \<Rightarrow> string" where
  "stripFences [] = []"
| "stripFences (c # cs) =
     (if prefix ''```json'' (c # cs)
      then stripFences (dropWhile isSpace (drop 7 (c # cs)))
      else if prefix ''```'' (dropWhile isSpace (c # cs))
      then stripFences (drop 3 (dropWhile isSpace (c # cs)))
      else c # stripFences cs)"
  by pat_completeness auto
termination
proof (relation "measure length", goal_cases)
  case 1
  show ?case by simp
next
  case (2 c cs)
  have "length (dropWhile isSpace (drop 7 (c # cs))) \<le> length (drop 7 (c # cs))"
    by (rule length_dropWhile_le)
  then show ?case by simp
next
  case (3 c cs)
  have le: "length (dropWhile isSpace (c # cs)) \<le> length (c # cs)"
    by (rule length_dropWhile_le)
  have "\<And>ys. prefix ''```'' ys \<Longrightarrow> ys \<noteq> []" by auto
  from this [OF 3(2)] have "0 < length (dropWhile isSpace (c # cs))" by simp
  with le show ?case by simp
next
  case (4 c cs)
  show ?case by simp
qed

declare stripFences.simps [simp del]

text \<open>
  \<^verbatim>\<open>jsonStr.replace(/^[^{]*({[\s\S]*})[^}]*$/, '$1')\<close>. The pattern is anchored at both
  ends: it matches when the string has an opening brace and a closing brace after the
  first opening one; the group then runs from the first opening brace to the last
  closing brace, and replaces the whole string. Otherwise the string is unchanged.
\<close>

definition extractObject :: "string \<Rightarrow> string" where
  "extractObject s =
     (let rest = dropWhile (\<lambda>c. c \<noteq> CHR ''{'') s in
      if rest \<noteq> [] \<and> CHR ''}'' \<in> set rest
      then rev (dropWhile (\<lambda>c. c \<noteq> CHR ''}'') (rev rest))
      else s)"

text \<open>\<^verbatim>\<open>output.content || output.toString()\<close>: the empty string is falsy, a list is not.\<close>

definition contentOrString :: "ai_message \<Rightarrow> json" where
  "contentOrString output =
     (case content output of
        TextContent s \<Rightarrow> (if s = [] then JStr (toString output) else JStr s)
      | BlockContent blocks \<Rightarrow> JArr blocks)"

definition generateFallbackAnalysis :: "scored list \<Rightarrow> ai_message \<Rightarrow> json" where
  "generateFallbackAnalysis transactionData rawOutput = JObj [
     (''totalTransactions'', JObj [
        (''count'', JNum (Num (real (length transactionData)))),
        (''description'', JStr ''Total number of transactions processed in the selected period'')]),
     (''totalAmountInOut'', JObj [
        (''totalInflow'', JNum (Num 0)),
        (''totalOutflow'', JNum (Num 0)),
        (''netAmount'', JNum (Num 0)),
        (''description'',
           JStr ''Unable to calculate due to parsing error - please check data format'')]),
     (''bankwiseSummary'', JObj [
        (''banks'', JArr []),
        (''description'', JStr ''Bank analysis unavailable due to processing error'')]),
     (''top5ContactsByExpense'', JObj [
        (''contacts'', JArr []),
        (''description'', JStr ''Contact analysis unavailable due to processing error'')]),
     (''accountwiseSpending'', JObj [
        (''accounts'', JArr []),
        (''description'', JStr ''Account analysis unavailable due to processing error'')]),
     (''monthlyTrend'', JObj [
        (''months'', JArr []),
        (''description'',
           JStr ''Monthly trend analysis unavailable due to processing error'')]),
     (''transactionTypeDistribution'', JObj [
        (''types'', JArr []),
        (''description'',
           JStr ''Transaction type analysis unavailable due to processing error'')]),
     (''keyInsights'', JObj [
        (''highestExpenseMonth'', JStr ''Unknown''),
        (''lowestExpenseMonth'', JStr ''Unknown''),
        (''averageMonthlySpending'', JNum (Num 0)),
        (''mostFrequentTransactionType'', JStr ''Unknown''),
        (''largestSingleTransaction'', JNum (Num 0)),
        (''financialHealthScore'', JNum (Num 50)),
        (''recommendations'', JArr [
           JStr ''Please ensure transaction data is properly formatted'',
           JStr ''Check if amount and date fields are clearly specified'',
           JStr ''Verify bank and account information is included in records''])]),
     (''executiveSummary'',
        JStr (''Analysis of '' @ decimal (length transactionData) @
              '' transaction records encountered processing errors. Please review data format and try again.'')),
     (''processingError'', JBool True),
     (''rawResponse'', contentOrString rawOutput)]"

text \<open>
  The last step of the analysis chain. Everything thrown inside its \<^verbatim>\<open>try\<close> ends in the
  fallback: \<^verbatim>\<open>content.trim()\<close> on a content that is not a string, \<^verbatim>\<open>JSON.parse\<close> on a
  string that is not JSON, and \<^verbatim>\<open>section in parsed\<close> on a parsed primitive.
\<close>

definition enhancedJsonParser :: "env \<Rightarrow> scored list \<Rightarrow> ai_message \<Rightarrow> json" where
  "enhancedJsonParser E transactionData output =
     (case contentOrString output of
        JStr contentStr \<Rightarrow>
          (let jsonStr = extractObject (stripFences (trim contentStr)) in
           case JSON_parse E jsonStr of
             None \<Rightarrow> generateFallbackAnalysis transactionData output
           | Some parsed \<Rightarrow>
               if isPrimitive parsed
               then generateFallbackAnalysis transactionData output
               else parsed)
      | _ \<Rightarrow> generateFallbackAnalysis transactionData output)"

text \<open>The \<^verbatim>\<open>contextProcessor\<close>: the records, joined by a rule of fifty equals signs.\<close>

definition contextProcessor :: "env \<Rightarrow> scored list \<Rightarrow> string" where
  "contextProcessor E transactionData =
     join ([CHR 0x0A, CHR 0x0A] @ replicate 50 (CHR ''='') @ [CHR 0x0A, CHR 0x0A])
       (map (recordLine E) (enumerate 0 transactionData))"

definition generateFinancialAnalysis ::
  "env \<Rightarrow> event list \<Rightarrow> scored list \<Rightarrow> chat_model \<Rightarrow> (exn + json) \<times> event list" where
  "generateFinancialAnalysis E tr transactionData m =
     (let p = AnalysisPrompt (contextProcessor E transactionData)
      in case invoke E tr m p of
           Inl e \<Rightarrow> (Inl e, tr @ [InvokeModel m p])
         | Inr output \<Rightarrow>
             (Inr (enhancedJsonParser E transactionData output), tr @ [InvokeModel m p]))"

text \<open>
  \<^verbatim>\<open>content.match(/\d{4}-\d{2}-\d{2}|\d{2}\/\d{2}\/\d{4}|\d{2}-\d{2}-\d{4}/)\<close>: the first
  position where one of the three shapes matches, the shapes tried in this order. In a
  shape \<open>None\<close> is a digit and \<open>Some c\<close> the character \<open>c\<close>.
\<close>

fun matchShape :: "char option list \<Rightarrow> string \<Rightarrow> bool" where
  "matchShape [] s = True"
| "matchShape (p # ps) [] = False"
| "matchShape (None # ps) (c # cs) = (isDigit c \<and> matchShape ps cs)"
| "matchShape (Some x # ps) (c # cs) = (c = x \<and> matchShape ps cs)"

definition dateShapes :: "char option list list" where
  "dateShapes =
     [[None, None, None, None, Some CHR ''-'', None, None, Some CHR ''-'', None, None],
      [None, None, Some CHR ''/'', None, None, Some CHR ''/'', None, None, None, None],
      [None, None, Some CHR ''-'', None, None, Some CHR ''-'', None, None, None, None]]"

fun dateMatch :: "string \<Rightarrow> string option" where
  "dateMatch [] = None"
| "dateMatch (c # cs) =
     (if \<exists>sh \<in> set dateShapes. matchShape sh (c # cs)
      then Some (take 10 (c # cs))
      else dateMatch cs)"

record period_info =
  startDate :: string
  endDate :: string
  description :: string

definition extractPeriodInfo :: "scored list \<Rightarrow> period_info" where
  "extractPeriodInfo transactionData =
     (let dates = List.map_filter (\<lambda>item. dateMatch (pageContent (fst item))) transactionData
      in if dates = []
         then \<lparr>startDate = ''Unknown'', endDate = ''Unknown'',
               description = ''Transaction period could not be determined''\<rparr>
         else (let sortedDates = sort dates in
               \<lparr>startDate = hd sortedDates, endDate = last sortedDates,
                description = ''Analysis covers transactions from '' @ hd sortedDates @
                              '' to '' @ last sortedDates\<rparr>))"

section \<open>AppController\<close>

definition ensureInitialized :: "state \<Rightarrow> exn option" where
  "ensureInitialized st =
     (if \<not> isInitialized st then Some (Error ''AI components not initialized yet'') else None)"

subsection \<open>POST /sync\<close>

text \<open>The uploaded file; \<open>None\<close> below is a request without one.\<close>

record upload =
  mimetype :: string
  originalname :: string
  buffer :: string

record batch_result =
  batchNumber :: nat
  documentsInBatch :: nat
  documentsProcessed :: nat
  startIndex :: nat
  endIndex :: int
  status :: string
  error :: "string option"

record sync_summary =
  successful :: nat
  failed :: nat

record sync_response =
  totalDocuments :: nat
  processedDocuments :: nat
  totalBatches :: nat
  batchSize :: nat
  embeddingModel :: string
  expectedEmbeddingDimension :: nat
  results :: "batch_result list"
  summary :: sync_summary

text \<open>\<^verbatim>\<open>const batchSize = 50\<close> and \<^verbatim>\<open>Math.ceil(docs.length / batchSize)\<close>.\<close>

definition syncBatchSize :: nat where
  "syncBatchSize = 50"

definition syncTotalBatches :: "nat \<Rightarrow> nat" where
  "syncTotalBatches n = nat \<lceil>real n / real syncBatchSize\<rceil>"

text \<open>
  The loop over the batches (lines 122-164), from batch \<open>i\<close> on, with the count of
  processed documents, the results and the trace so far.
\<close>

function syncLoop ::
  "env \<Rightarrow> document list \<Rightarrow> nat \<Rightarrow> nat \<times> batch_result list \<times> event list \<Rightarrow>
   nat \<times> batch_result list \<times> event list" where
  "syncLoop E docs i (processedCount, res, tr) =
     (if i < syncTotalBatches (length docs)
      then
        (let startIdx = i * syncBatchSize;
             endIdx = min (startIdx + syncBatchSize) (length docs);
             batch = slice docs startIdx endIdx;
             tr1 = tr @ [AddDocuments batch];
             (processedCount1, res1) =
               (case addDocuments E tr batch of
                  None \<Rightarrow>
                    (processedCount + length batch,
                     res @ [\<lparr>batchNumber = i + 1, documentsInBatch = length batch,
                             documentsProcessed = length batch, startIndex = startIdx,
                             endIndex = int endIdx - 1, status = ''success'',
                             error = None\<rparr>])
                | Some e \<Rightarrow>
                    (processedCount,
                     res @ [\<lparr>batchNumber = i + 1, documentsInBatch = length batch,
                             documentsProcessed = 0, startIndex = startIdx,
                             endIndex = int endIdx - 1, status = ''error'',
                             error = Some (message e)\<rparr>]));
             tr2 = (if int i < int (syncTotalBatches (length docs)) - 1
                    then tr1 @ [SetTimeout 2000] else tr1)
         in syncLoop E docs (i + 1) (processedCount1, res1, tr2))
      else (processedCount, res, tr))"
  by pat_completeness auto
termination
  by (relation "measure (\<lambda>(E, docs, i, acc). syncTotalBatches (length docs) - i)") auto

declare syncLoop.simps [simp del]

text \<open>The test embedding of the first document (lines 107-120).\<close>

definition testEmbedding :: "env \<Rightarrow> event list \<Rightarrow> document list \<Rightarrow> exn option \<times> event list" where
  "testEmbedding E tr docs =
     (case docs of
        [] \<Rightarrow> (None, tr)
      | d # ds \<Rightarrow>
          (case embedQuery E tr (pageContent d) of
             Inl e \<Rightarrow> (Some e, tr @ [EmbedQuery (pageContent d)])
           | Inr v \<Rightarrow> (None, tr @ [EmbedQuery (pageContent d)])))"

text \<open>Lines 102-178: from the loaded documents to the response.\<close>

definition syncProcess ::
  "env \<Rightarrow> event list \<Rightarrow> document list \<Rightarrow> (exn + sync_response) \<times> event list" where
  "syncProcess E tr docs =
     (case testEmbedding E tr docs of
        (Some e, tr1) \<Rightarrow> (Inl e, tr1)
      | (None, tr1) \<Rightarrow>
          (case syncLoop E docs 0 (0, [], tr1) of
             (processedCount, res, tr2) \<Rightarrow>
               (Inr \<lparr>totalDocuments = length docs,
                     processedDocuments = processedCount,
                     totalBatches = syncTotalBatches (length docs),
                     batchSize = syncBatchSize,
                     embeddingModel = ''gemini-embedding-001'',
                     expectedEmbeddingDimension = 3072,
                     results = res,
                     summary =
                       \<lparr>successful = length (filter (\<lambda>r. status r = ''success'') res),
                        failed = length (filter (\<lambda>r. status r = ''error'') res)\<rparr>\<rparr>,
                tr2)))"

text \<open>The body of the \<^verbatim>\<open>try\<close> (lines 90-178), given the path of the temporary file.\<close>

definition syncTry ::
  "env \<Rightarrow> event list \<Rightarrow> upload \<Rightarrow> string \<Rightarrow> (exn + sync_response) \<times> event list" where
  "syncTry E tr file tempFilePath =
     (case writeFile E tr tempFilePath (buffer file) of
        Some e \<Rightarrow> (Inl e, tr @ [WriteFile tempFilePath (buffer file)])
      | None \<Rightarrow>
          (let tr1 = tr @ [WriteFile tempFilePath (buffer file)] in
           case csvLoad E tr1 tempFilePath of
             Inl e \<Rightarrow> (Inl e, tr1 @ [CsvLoad tempFilePath])
           | Inr docs \<Rightarrow> syncProcess E (tr1 @ [CsvLoad tempFilePath]) docs))"

definition tempPath :: "env \<Rightarrow> event list \<Rightarrow> upload \<Rightarrow> string" where
  "tempPath E tr file =
     pathJoin E [dirname E, ''../'',
                 ''temp_'' @ decimal (dateNow E tr) @ ''_'' @ originalname file]"

text \<open>
  The handler: the two checks, \<^verbatim>\<open>ensureInitialized\<close>, the \<^verbatim>\<open>try\<close>, its \<^verbatim>\<open>catch\<close>, and
  the \<^verbatim>\<open>finally\<close>, where a failure of \<^verbatim>\<open>unlink\<close> is caught and logged.
\<close>

definition sync :: "env \<Rightarrow> state \<Rightarrow> upload option \<Rightarrow> (exn + sync_response) \<times> state" where
  "sync E st file =
     (case file of
        None \<Rightarrow> (Inl (BadRequestException ''No CSV file provided''), st)
      | Some f \<Rightarrow>
          if mimetype f \<noteq> ''text/csv'' \<and> \<not> endsWith (originalname f) ''.csv''
          then (Inl (BadRequestException ''File must be a CSV''), st)
          else
            (case ensureInitialized st of
               Some e \<Rightarrow> (Inl e, st)
             | None \<Rightarrow>
                 (let tempFilePath = tempPath E (trace st) f;
                      (r, tr1) = syncTry E (trace st) f tempFilePath;
                      r1 = (case r of
                              Inl e \<Rightarrow>
                                Inl (BadRequestException
                                       (''Failed to process CSV: '' @ message e))
                            | Inr v \<Rightarrow> Inr v);
                      tr2 = (if tempFilePath \<noteq> []
                             then (case unlink E tr1 tempFilePath of
                                     None \<Rightarrow> tr1 @ [Unlink tempFilePath]
                                   | Some cleanupError \<Rightarrow> tr1 @ [Unlink tempFilePath])
                             else tr1)
                  in (r1, st\<lparr>trace := tr2\<rparr>))))"

subsection \<open>POST /chat\<close>

record chat_request =
  query :: "string option"
  limit :: "jsnumber option"
  temperature :: "jsnumber option"

record chat_metadata =
  topScores :: "jsnumber list"
  chatModel :: string
  chatEmbeddingModel :: string

record chat_response =
  response :: message_content
  responseQuery :: string
  resultsFound :: nat
  responseMetadata :: "chat_metadata option"

definition clampTemperature :: "jsnumber \<Rightarrow> jsnumber" where
  "clampTemperature t = Math_max (Num 0) (Math_min (Num 2) t)"

text \<open>
  The body of the \<^verbatim>\<open>try\<close> (lines 199-244). Constructing the chat model makes no call
  and succeeds, as it did in \<^verbatim>\<open>onModuleInit\<close>: it is the assignment to \<open>model\<close>.
\<close>

definition chatTry :: "env \<Rightarrow> state \<Rightarrow> chat_request \<Rightarrow> (exn + chat_response) \<times> state" where
  "chatTry E st request =
     (case ensureInitialized st of
        Some e \<Rightarrow> (Inl e, st)
      | None \<Rightarrow>
          (let topK = (case limit request of None \<Rightarrow> Num 4 | Some l \<Rightarrow> l) in
           case query request of
             None \<Rightarrow> (Inl (BadRequestException ''Query is required''), st)
           | Some q \<Rightarrow>
               if trim q = []
               then (Inl (BadRequestException ''Query is required''), st)
               else
                 (let st1 = (case temperature request of
                               None \<Rightarrow> st
                             | Some t \<Rightarrow>
                                 st\<lparr>model := \<lparr>modelName = ''gemini-2.0-flash'',
                                               modelTemperature = clampTemperature t\<rparr>\<rparr>)
                  in case performSimilaritySearch E (trace st1) q topK of
                       (Inl e, tr1) \<Rightarrow> (Inl e, st1\<lparr>trace := tr1\<rparr>)
                     | (Inr searchResults, tr1) \<Rightarrow>
                         if length searchResults = 0
                         then (Inr \<lparr>response = TextContent
                                       ''I couldn't find any relevant transaction data for your query.'',
                                     responseQuery = q, resultsFound = 0,
                                     responseMetadata = None\<rparr>,
                               st1\<lparr>trace := tr1\<rparr>)
                         else
                           (case generateResponse E tr1 q searchResults (model st1) of
                              (Inl e, tr2) \<Rightarrow> (Inl e, st1\<lparr>trace := tr2\<rparr>)
                            | (Inr r, tr2) \<Rightarrow>
                                (Inr \<lparr>response = content r, responseQuery = q,
                                      resultsFound = length searchResults,
                                      responseMetadata =
                                        Some \<lparr>topScores = map snd searchResults,
                                              chatModel = ''gemini-2.0-flash'',
                                              chatEmbeddingModel = ''gemini-embedding-001''\<rparr>\<rparr>,
                                 st1\<lparr>trace := tr2\<rparr>)))))"

definition chat :: "env \<Rightarrow> state \<Rightarrow> chat_request \<Rightarrow> (exn + chat_response) \<times> state" where
  "chat E st request =
     (case chatTry E st request of
        (Inl e, st1) \<Rightarrow>
          (Inl (BadRequestException (''Chat processing failed: '' @ message e)), st1)
      | (Inr v, st1) \<Rightarrow> (Inr v, st1))"

subsection \<open>GET /summarize\<close>

text \<open>The three shapes of the reply; a property that a shape lacks is \<open>None\<close>.\<close>

record summarize_response =
  success :: bool
  summarizeError :: "string option"
  details :: "string option"
  suggestion :: "string option"
  recordsAnalyzed :: "nat option"
  period :: "period_info option"
  insights :: "json option"
  generatedAt :: "string option"

text \<open>The body of the \<^verbatim>\<open>try\<close> (lines 256-281).\<close>

definition summarizeTry :: "env \<Rightarrow> state \<Rightarrow> (exn + summarize_response) \<times> state" where
  "summarizeTry E st =
     (case getTransactionData E (trace st) of
        (Inl e, tr1) \<Rightarrow> (Inl e, st\<lparr>trace := tr1\<rparr>)
      | (Inr transactionData, tr1) \<Rightarrow>
          if length transactionData = 0
          then (Inr \<lparr>success = False,
                     summarizeError = Some ''No transaction records found in the database'',
                     details = None,
                     suggestion =
                       Some ''Please upload transaction data first using the /sync endpoint'',
                     recordsAnalyzed = None, period = None, insights = None,
                     generatedAt = None\<rparr>,
                st\<lparr>trace := tr1\<rparr>)
          else
            (case generateFinancialAnalysis E tr1 transactionData (model st) of
               (Inl e, tr2) \<Rightarrow> (Inl e, st\<lparr>trace := tr2\<rparr>)
             | (Inr analysis, tr2) \<Rightarrow>
                 (Inr \<lparr>success = True, summarizeError = None, details = None,
                       suggestion = None,
                       recordsAnalyzed = Some (length transactionData),
                       period = Some (extractPeriodInfo transactionData),
                       insights = Some analysis,
                       generatedAt = Some (toISOString E tr2)\<rparr>,
                  st\<lparr>trace := tr2\<rparr>)))"

definition summarize :: "env \<Rightarrow> state \<Rightarrow> (exn + summarize_response) \<times> state" where
  "summarize E st =
     (case ensureInitialized st of
        Some e \<Rightarrow> (Inl e, st)
      | None \<Rightarrow>
          (case summarizeTry E st of
             (Inl e, st1) \<Rightarrow>
               (Inr \<lparr>success = False,
                     summarizeError = Some ''Failed to generate financial summary'',
                     details = Some (message e),
                     suggestion =
                       Some ''Please check your transaction data format and try again'',
                     recordsAnalyzed = None, period = None, insights = None,
                     generatedAt = None\<rparr>,
                st1)
           | (Inr v, st1) \<Rightarrow> (Inr v, st1)))"

section \<open>Reading a trace\<close>

text \<open>The invocations of the chat model in a trace.\<close>

fun isInvokeModel :: "event \<Rightarrow> bool" where
  "isInvokeModel (InvokeModel m p) = True"
| "isInvokeModel e = False"

definition modelInvocations :: "event list \<Rightarrow> event list" where
  "modelInvocations tr = filter isInvokeModel tr"

section \<open>A sample world\<close>

text \<open>
  One concrete outside world and controller state, on which the handlers are run below:
  every call succeeds, the CSV has one row, the vector store returns four matches with
  the scores 0.9, 0.55, 0.3 and 0.7, and the chat model answers with a fenced block that
  is not JSON.
\<close>

definition sampleDoc :: "string \<Rightarrow> document" where
  "sampleDoc s = \<lparr>pageContent = s, metadata = []\<rparr>"

definition sampleMatches :: "scored list" where
  "sampleMatches =
     [(sampleDoc ''rent,1200,payment'', Num (9 / 10)),
      (sampleDoc ''coffee,4,payment'', Num (55 / 100)),
      (sampleDoc ''note'', Num (3 / 10)),
      (sampleDoc ''salary,5000,deposit'', Num (7 / 10))]"

definition sampleWorld :: env where
  "sampleWorld =
     \<lparr>dirname = ''/app/dist'',
      dateNow = (\<lambda>tr. 1700000000000),
      toISOString = (\<lambda>tr. ''2024-01-01T00:00:00.000Z''),
      pathJoin = (\<lambda>parts. ''/app/'' @ last parts),
      writeFile = (\<lambda>tr p b. None),
      csvLoad = (\<lambda>tr p. Inr [sampleDoc ''rent,1200,payment'']),
      unlink = (\<lambda>tr p. None),
      embedQuery = (\<lambda>tr q. Inr [Num 1, Num 0]),
      addDocuments = (\<lambda>tr b. None),
      similaritySearchVectorWithScore = (\<lambda>tr v k. Inr sampleMatches),
      invoke = (\<lambda>tr m p.
        Inr \<lparr>content = TextContent
               (''```json'' @ [CHR 0x0A] @ ''{\"totalTransactions\": }'' @ [CHR 0x0A] @ ''```''),
             toString = ''[object Object]''\<rparr>),
      JSON_parse = (\<lambda>s. if s = ''{}'' then Some (JObj []) else None),
      toFixed1 = (\<lambda>x. ''90.0'')\<rparr>"

text \<open>The same world with a vector store that only finds one weak match.\<close>

definition weakMatchWorld :: env where
  "weakMatchWorld =
     sampleWorld\<lparr>similaritySearchVectorWithScore :=
       (\<lambda>tr v k. Inr [(sampleDoc ''note'', Num (3 / 10))])\<rparr>"

text \<open>The same world with an embedding service that rejects every call.\<close>

definition noEmbeddingWorld :: env where
  "noEmbeddingWorld = sampleWorld\<lparr>embedQuery := (\<lambda>tr q. Inl (Error ''quota exceeded''))\<rparr>"

text \<open>The same world with a vector store that rejects every upsert.\<close>

definition noUpsertWorld :: env where
  "noUpsertWorld =
     sampleWorld\<lparr>addDocuments := (\<lambda>tr b. Some (Error ''Vector dimension 0 does not match''))\<rparr>"

definition readyState :: state where
  "readyState =
     \<lparr>isInitialized = True,
      model = \<lparr>modelName = ''gemini-2.0-flash'', modelTemperature = Num (6 / 10)\<rparr>,
      trace = []\<rparr>"

text \<open>An upload of that CSV and the path of its temporary file in the sample world.\<close>

definition sampleUpload :: upload where
  "sampleUpload =
     \<lparr>mimetype = ''text/csv'', originalname = ''data.csv'',
      buffer = ''description,amount,type'' @ [CHR 0x0A] @ ''rent,1200,payment''\<rparr>"

definition sampleTempPath :: string where
  "sampleTempPath = ''/app/temp_'' @ decimal 1700000000000 @ ''_data.csv''"

text \<open>
  A list of 120 documents, and the sample world with a vector store that rejects the
  upsert made when two events have happened, which is the second batch of a loop that
  starts on an empty trace.
\<close>

definition manyDocs :: "document list" where
  "manyDocs = map (\<lambda>i. sampleDoc (''row '' @ decimal i)) [0..<120]"

definition secondUpsertFailsWorld :: env where
  "secondUpsertFailsWorld =
     sampleWorld\<lparr>addDocuments :=
       (\<lambda>tr b. if length tr = 2 then Some (Error ''upsert timed out'') else None)\<rparr>"

section \<open>The batches in closed form\<close>

text \<open>
  What the loop of \<open>sync\<close> is claimed to do, written without the loop. Batch \<open>i\<close> is
  the documents at the indices from \<open>i * 50\<close> up to \<open>min ((i + 1) * 50) n\<close>, exclusive.
  Its events are the upsert of the batch and, unless it is the last of the
  \<open>\<lceil>n / 50\<rceil>\<close> batches, a timer of 2000 milliseconds. Its entry in the results is a
  success entry when the upsert, made after the events of the batches before it,
  succeeds, and an error entry with \<open>documentsProcessed = 0\<close> when it is rejected.
\<close>

definition batchAt :: "document list \<Rightarrow> nat \<Rightarrow> document list" where
  "batchAt docs i = map (\<lambda>j. docs ! j) [i * 50 ..< min ((i + 1) * 50) (length docs)]"

definition batchEvents :: "document list \<Rightarrow> nat \<Rightarrow> event list" where
  "batchEvents docs i =
     AddDocuments (batchAt docs i) #
     (if i + 1 < nat \<lceil>real (length docs) / 50\<rceil> then [SetTimeout 2000] else [])"

definition loopEvents :: "document list \<Rightarrow> nat \<Rightarrow> event list" where
  "loopEvents docs k = concat (map (batchEvents docs) [0..<k])"

definition batchEntry :: "env \<Rightarrow> event list \<Rightarrow> document list \<Rightarrow> nat \<Rightarrow> batch_result" where
  "batchEntry E tr docs i =
     (case addDocuments E (tr @ loopEvents docs i) (batchAt docs i) of
        None \<Rightarrow>
          \<lparr>batchNumber = i + 1, documentsInBatch = length (batchAt docs i),
           documentsProcessed = length (batchAt docs i), startIndex = i * 50,
           endIndex = int (min ((i + 1) * 50) (length docs)) - 1, status = ''success'',
           error = None\<rparr>
      | Some e \<Rightarrow>
          \<lparr>batchNumber = i + 1, documentsInBatch = length (batchAt docs i),
           documentsProcessed = 0, startIndex = i * 50,
           endIndex = int (min ((i + 1) * 50) (length docs)) - 1, status = ''error'',
           error = Some (message e)\<rparr>)"

section \<open>Properties of the string functions\<close>

lemma str_includes_iff_sublist: "str_includes s k \<longleftrightarrow> sublist k s"
  by (induction s) (auto simp: sublist_Cons_right)

lemma templates_distinct:
  "distinct [maximumPrompt, minimumPrompt, summaryPrompt, patternPrompt, defaultPrompt]"
  by (simp add: maximumPrompt_def minimumPrompt_def summaryPrompt_def patternPrompt_def
      defaultPrompt_def)

lemma endsWith_iff_suffix: "endsWith s suf \<longleftrightarrow> suffix suf s"
  unfolding endsWith_def suffix_def
  by (metis append_eq_conv_conj append_take_drop_id diff_add_inverse2 le_add2 length_append
      length_drop)

section \<open>The system prompt\<close>

text \<open>
  C7. For every query, \<open>getSystemPrompt\<close> lowercases the query and returns one of five
  fixed templates, chosen by the keywords that occur in the lowercased query as
  substrings (\<open>sublist k s\<close>: \<open>s = pre @ k @ suf\<close> for some \<open>pre\<close> and \<open>suf\<close>), with this
  precedence: the maximum template for maximum, highest or largest; else the minimum
  template for minimum, lowest or smallest; else the summary template for summary or
  overview; else the pattern template for pattern or trend; else the default template.
  The five templates are pairwise different, so the answer names its case.
\<close>

theorem getSystemPrompt_precedence:
  "getSystemPrompt q =
     (if sublist ''maximum'' (toLowerCase q) \<or> sublist ''highest'' (toLowerCase q) \<or>
         sublist ''largest'' (toLowerCase q)
      then maximumPrompt
      else if sublist ''minimum'' (toLowerCase q) \<or> sublist ''lowest'' (toLowerCase q) \<or>
              sublist ''smallest'' (toLowerCase q)
      then minimumPrompt
      else if sublist ''summary'' (toLowerCase q) \<or> sublist ''overview'' (toLowerCase q)
      then summaryPrompt
      else if sublist ''pattern'' (toLowerCase q) \<or> sublist ''trend'' (toLowerCase q)
      then patternPrompt
      else defaultPrompt)
   \<and> distinct [maximumPrompt, minimumPrompt, summaryPrompt, patternPrompt, defaultPrompt]"
  unfolding getSystemPrompt_def Let_def str_includes_iff_sublist
  using templates_distinct by simp

text \<open>
  The precedence at work: a query with both \<open>lowest\<close> and \<open>highest\<close> gets the maximum
  template, one with \<open>overview\<close> and \<open>smallest\<close> the minimum template, one with \<open>trend\<close>
  and \<open>summary\<close> the summary template.
\<close>

theorem getSystemPrompt_precedence_witness:
  "getSystemPrompt ''Lowest and HIGHEST trend?'' = maximumPrompt
   \<and> getSystemPrompt ''Overview of the smallest payments'' = minimumPrompt
   \<and> getSystemPrompt ''any Trend in the summary'' = summaryPrompt
   \<and> getSystemPrompt ''spending PATTERNS'' = patternPrompt
   \<and> getSystemPrompt ''how much rent'' = defaultPrompt
   \<and> maximumPrompt \<noteq> defaultPrompt"
proof -
  have l1: "toLowerCase ''Lowest and HIGHEST trend?'' = ''lowest and highest trend?''"
    by code_simp
  have s1: "sublist ''highest'' ''lowest and highest trend?''"
    unfolding str_includes_iff_sublist [symmetric] by code_simp
  have "getSystemPrompt ''Lowest and HIGHEST trend?'' = maximumPrompt"
    using getSystemPrompt_precedence [of "''Lowest and HIGHEST trend?''"] l1 s1 by simp
  moreover have "getSystemPrompt ''Overview of the smallest payments'' = minimumPrompt"
    by code_simp
  moreover have "getSystemPrompt ''any Trend in the summary'' = summaryPrompt"
    by code_simp
  moreover have "getSystemPrompt ''spending PATTERNS'' = patternPrompt"
    by code_simp
  moreover have "getSystemPrompt ''how much rent'' = defaultPrompt"
    by code_simp
  moreover have "maximumPrompt \<noteq> defaultPrompt"
    using getSystemPrompt_precedence [of "''x''"] by simp
  ultimately show ?thesis by simp
qed

section \<open>Similarity search\<close>


lemma performSimilaritySearch_Inr:
  assumes "performSimilaritySearch E tr q topK = (Inr ms, tr1)"
  shows "\<exists>v raw. embedQuery E tr q = Inr v
           \<and> similaritySearchVectorWithScore E (tr @ [EmbedQuery q]) v topK = Inr raw
           \<and> ms = filter (\<lambda>(d, s). js_ge s lit_0_5) raw
           \<and> tr1 = tr @ [EmbedQuery q, SimilaritySearch v topK]"
  using assms unfolding performSimilaritySearch_def relevanceThreshold_def Let_def
  by (auto split: sum.splits)

lemma getTransactionData_Inr:
  assumes "getTransactionData E tr = (Inr ts, tr1)"
  shows "\<exists>v raw.
           embedQuery E tr ''financial transaction bank payment deposit withdrawal expense income'' = Inr v
           \<and> similaritySearchVectorWithScore E
                (tr @ [EmbedQuery ''financial transaction bank payment deposit withdrawal expense income''])
                v (Num 50) = Inr raw
           \<and> ts = filter (\<lambda>(d, s). js_ge s lit_0_6) raw
           \<and> tr1 = tr @ [EmbedQuery ''financial transaction bank payment deposit withdrawal expense income'',
                          SimilaritySearch v (Num 50)]"
  using assms unfolding getTransactionData_def Let_def
  by (auto split: sum.splits)

text \<open>
  C2. Whenever \<open>performSimilaritySearch\<close> returns matches, they are the raw results of
  the vector store filtered by \<^verbatim>\<open>score >= 0.5\<close>: a subsequence of the raw results in
  their order, every returned score is at least 0.5, and every raw result with such a
  score is returned. The same holds for \<open>getTransactionData\<close> with \<^verbatim>\<open>score >= 0.6\<close>, the
  fixed query and the limit 50. (The thresholds are the doubles that the literals
  denote, \<open>lit_0_5\<close> and \<open>lit_0_6\<close>.)
\<close>

theorem search_results_meet_threshold:
  "(performSimilaritySearch E tr q topK = (Inr ms, tr1) \<longrightarrow>
      (\<exists>v raw. embedQuery E tr q = Inr v
         \<and> similaritySearchVectorWithScore E (tr @ [EmbedQuery q]) v topK = Inr raw
         \<and> ms = filter (\<lambda>(d, s). js_ge s lit_0_5) raw
         \<and> subseq ms raw
         \<and> (\<forall>(d, s) \<in> set ms. js_ge s lit_0_5)
         \<and> (\<forall>m \<in> set raw. js_ge (snd m) lit_0_5 \<longrightarrow> m \<in> set ms)))
   \<and> (getTransactionData E tr = (Inr ts, tr2) \<longrightarrow>
      (\<exists>v raw.
         embedQuery E tr ''financial transaction bank payment deposit withdrawal expense income'' = Inr v
         \<and> similaritySearchVectorWithScore E
              (tr @ [EmbedQuery ''financial transaction bank payment deposit withdrawal expense income''])
              v (Num 50) = Inr raw
         \<and> ts = filter (\<lambda>(d, s). js_ge s lit_0_6) raw
         \<and> subseq ts raw
         \<and> (\<forall>(d, s) \<in> set ts. js_ge s lit_0_6)
         \<and> (\<forall>m \<in> set raw. js_ge (snd m) lit_0_6 \<longrightarrow> m \<in> set ts)))"
proof (intro conjI impI)
  assume "performSimilaritySearch E tr q topK = (Inr ms, tr1)"
  from performSimilaritySearch_Inr [OF this] obtain v raw where
    h: "embedQuery E tr q = Inr v"
       "similaritySearchVectorWithScore E (tr @ [EmbedQuery q]) v topK = Inr raw"
       "ms = filter (\<lambda>(d, s). js_ge s lit_0_5) raw"
    by blast
  have "subseq ms raw" unfolding h(3) by (rule subseq_filter_left)
  moreover have "\<forall>(d, s) \<in> set ms. js_ge s lit_0_5" unfolding h(3) by auto
  moreover have "\<forall>m \<in> set raw. js_ge (snd m) lit_0_5 \<longrightarrow> m \<in> set ms"
    unfolding h(3) by (auto simp: case_prod_beta)
  ultimately show "\<exists>v raw. embedQuery E tr q = Inr v
         \<and> similaritySearchVectorWithScore E (tr @ [EmbedQuery q]) v topK = Inr raw
         \<and> ms = filter (\<lambda>(d, s). js_ge s lit_0_5) raw
         \<and> subseq ms raw
         \<and> (\<forall>(d, s) \<in> set ms. js_ge s lit_0_5)
         \<and> (\<forall>m \<in> set raw. js_ge (snd m) lit_0_5 \<longrightarrow> m \<in> set ms)"
    using h by blast
next
  assume "getTransactionData E tr = (Inr ts, tr2)"
  from getTransactionData_Inr [OF this] obtain v raw where
    h: "embedQuery E tr ''financial transaction bank payment deposit withdrawal expense income'' = Inr v"
       "similaritySearchVectorWithScore E
              (tr @ [EmbedQuery ''financial transaction bank payment deposit withdrawal expense income''])
              v (Num 50) = Inr raw"
       "ts = filter (\<lambda>(d, s). js_ge s lit_0_6) raw"
    by blast
  have "subseq ts raw" unfolding h(3) by (rule subseq_filter_left)
  moreover have "\<forall>(d, s) \<in> set ts. js_ge s lit_0_6" unfolding h(3) by auto
  moreover have "\<forall>m \<in> set raw. js_ge (snd m) lit_0_6 \<longrightarrow> m \<in> set ts"
    unfolding h(3) by (auto simp: case_prod_beta)
  ultimately show "\<exists>v raw.
         embedQuery E tr ''financial transaction bank payment deposit withdrawal expense income'' = Inr v
         \<and> similaritySearchVectorWithScore E
              (tr @ [EmbedQuery ''financial transaction bank payment deposit withdrawal expense income''])
              v (Num 50) = Inr raw
         \<and> ts = filter (\<lambda>(d, s). js_ge s lit_0_6) raw
         \<and> subseq ts raw
         \<and> (\<forall>(d, s) \<in> set ts. js_ge s lit_0_6)
         \<and> (\<forall>m \<in> set raw. js_ge (snd m) lit_0_6 \<longrightarrow> m \<in> set ts)"
    using h by blast
qed

text \<open>On the sample world: 0.55 passes the chat threshold and not the one of summarize.\<close>

lemma sample_search:
  "performSimilaritySearch sampleWorld [] ''rent'' (Num 4) =
     (Inr [(sampleDoc ''rent,1200,payment'', Num (9 / 10)),
           (sampleDoc ''coffee,4,payment'', Num (55 / 100)),
           (sampleDoc ''salary,5000,deposit'', Num (7 / 10))],
      [EmbedQuery ''rent'', SimilaritySearch [Num 1, Num 0] (Num 4)])"
  by (simp add: performSimilaritySearch_def sampleWorld_def sampleMatches_def
      relevanceThreshold_def lit_0_5_def js_ge_def)

lemma sample_transactions:
  "getTransactionData sampleWorld [] =
     (Inr [(sampleDoc ''rent,1200,payment'', Num (9 / 10)),
           (sampleDoc ''salary,5000,deposit'', Num (7 / 10))],
      [EmbedQuery ''financial transaction bank payment deposit withdrawal expense income'',
       SimilaritySearch [Num 1, Num 0] (Num 50)])"
  by (simp add: getTransactionData_def sampleWorld_def sampleMatches_def
      lit_0_6_def js_ge_def)

theorem search_results_meet_threshold_witness:
  "fst (performSimilaritySearch sampleWorld [] ''rent'' (Num 4)) =
     Inr [(sampleDoc ''rent,1200,payment'', Num (9 / 10)),
          (sampleDoc ''coffee,4,payment'', Num (55 / 100)),
          (sampleDoc ''salary,5000,deposit'', Num (7 / 10))]
   \<and> fst (getTransactionData sampleWorld []) =
     Inr [(sampleDoc ''rent,1200,payment'', Num (9 / 10)),
          (sampleDoc ''salary,5000,deposit'', Num (7 / 10))]
   \<and> js_ge (Num (55 / 100)) lit_0_5 \<and> js_ge (Num (7 / 10)) lit_0_6
   \<and> subseq [(sampleDoc ''rent,1200,payment'', Num (9 / 10)),
              (sampleDoc ''salary,5000,deposit'', Num (7 / 10))] sampleMatches"
  using search_results_meet_threshold [of sampleWorld "[]" "''rent''" "Num 4"
      "[(sampleDoc ''rent,1200,payment'', Num (9 / 10)),
        (sampleDoc ''coffee,4,payment'', Num (55 / 100)),
        (sampleDoc ''salary,5000,deposit'', Num (7 / 10))]"
      "[EmbedQuery ''rent'', SimilaritySearch [Num 1, Num 0] (Num 4)]"
      "[(sampleDoc ''rent,1200,payment'', Num (9 / 10)),
        (sampleDoc ''salary,5000,deposit'', Num (7 / 10))]"
      "[EmbedQuery ''financial transaction bank payment deposit withdrawal expense income'',
        SimilaritySearch [Num 1, Num 0] (Num 50)]"]
    sample_search sample_transactions
  by (auto simp: sampleWorld_def)

section \<open>Uploads that are not CSV\<close>

text \<open>
  C4. A request without a file is rejected with the BadRequestException
  \<^verbatim>\<open>No CSV file provided\<close>; a file whose mimetype is not \<^verbatim>\<open>text/csv\<close> and whose original
  name does not end in \<^verbatim>\<open>.csv\<close> is rejected with the BadRequestException
  \<^verbatim>\<open>File must be a CSV\<close> (HTTP 400). In both cases the state is returned as it was: the
  trace has no new event, so no embedding call (and no other call) was made.
\<close>

theorem sync_rejects_non_csv:
  "sync E st None = (Inl (BadRequestException ''No CSV file provided''), st)
   \<and> (mimetype f \<noteq> ''text/csv'' \<and> \<not> suffix ''.csv'' (originalname f) \<longrightarrow>
        sync E st (Some f) = (Inl (BadRequestException ''File must be a CSV''), st)
        \<and> trace (snd (sync E st (Some f))) = trace st
        \<and> httpStatus POST (fst (sync E st (Some f))) = 400)"
  by (simp add: sync_def endsWith_iff_suffix)

theorem sync_rejects_non_csv_witness:
  "sync sampleWorld readyState
     (Some \<lparr>mimetype = ''application/pdf'', originalname = ''report.pdf'', buffer = ''%PDF''\<rparr>)
   = (Inl (BadRequestException ''File must be a CSV''), readyState)
   \<and> \<not> suffix ''.csv'' ''report.pdf''"
proof -
  have h: "\<not> suffix ''.csv'' ''report.pdf''"
    unfolding endsWith_iff_suffix [symmetric] by code_simp
  show ?thesis
    using sync_rejects_non_csv [of sampleWorld readyState
        "\<lparr>mimetype = ''application/pdf'', originalname = ''report.pdf'', buffer = ''%PDF''\<rparr>"] h
    by simp
qed

section \<open>The chat handler\<close>

lemma clampTemperature_cases:
  "js_le (Num 0) (clampTemperature t) \<and> js_le (clampTemperature t) (Num 2)
   \<and> (if \<not> js_le (Num 0) t then clampTemperature t = Num 0
       else if \<not> js_le t (Num 2) then clampTemperature t = Num 2
       else clampTemperature t = t)"
  by (cases t) (auto simp: clampTemperature_def Math_max_def Math_min_def)

lemma chatTry_valid:
  assumes "isInitialized st" "query request = Some q" "trim q \<noteq> []"
  shows "chatTry E st request =
     (let topK = (case limit request of None \<Rightarrow> Num 4 | Some l \<Rightarrow> l);
          st1 = (case temperature request of
                   None \<Rightarrow> st
                 | Some t \<Rightarrow>
                     st\<lparr>model := \<lparr>modelName = ''gemini-2.0-flash'',
                                   modelTemperature = clampTemperature t\<rparr>\<rparr>)
      in case performSimilaritySearch E (trace st1) q topK of
           (Inl e, tr1) \<Rightarrow> (Inl e, st1\<lparr>trace := tr1\<rparr>)
         | (Inr searchResults, tr1) \<Rightarrow>
             if length searchResults = 0
             then (Inr \<lparr>response = TextContent
                           ''I couldn't find any relevant transaction data for your query.'',
                         responseQuery = q, resultsFound = 0,
                         responseMetadata = None\<rparr>,
                   st1\<lparr>trace := tr1\<rparr>)
             else
               (case generateResponse E tr1 q searchResults (model st1) of
                  (Inl e, tr2) \<Rightarrow> (Inl e, st1\<lparr>trace := tr2\<rparr>)
                | (Inr r, tr2) \<Rightarrow>
                    (Inr \<lparr>response = content r, responseQuery = q,
                          resultsFound = length searchResults,
                          responseMetadata =
                            Some \<lparr>topScores = map snd searchResults,
                                  chatModel = ''gemini-2.0-flash'',
                                  chatEmbeddingModel = ''gemini-embedding-001''\<rparr>\<rparr>,
                     st1\<lparr>trace := tr2\<rparr>)))"
  using assms by (simp add: chatTry_def ensureInitialized_def Let_def)

lemma chat_model_after:
  assumes "isInitialized st" "query request = Some q" "trim q \<noteq> []"
  shows "model (snd (chat E st request)) =
     (case temperature request of
        None \<Rightarrow> model st
      | Some t \<Rightarrow> \<lparr>modelName = ''gemini-2.0-flash'', modelTemperature = clampTemperature t\<rparr>)"
  unfolding chat_def chatTry_valid [OF assms] Let_def
  by (auto split: prod.splits sum.splits option.splits)

lemma trim_rent: "trim ''rent'' \<noteq> []"
  by code_simp

lemma trim_balance: "trim ''balance of the moon'' \<noteq> []"
  by code_simp

lemma trim_blank: "trim ''  '' = []"
  by code_simp

lemma performSimilaritySearch_ok:
  assumes "embedQuery E tr q = Inr v"
      and "similaritySearchVectorWithScore E (tr @ [EmbedQuery q]) v topK = Inr raw"
  shows "performSimilaritySearch E tr q topK =
           (Inr (filter (\<lambda>(d, s). js_ge s lit_0_5) raw),
            tr @ [EmbedQuery q, SimilaritySearch v topK])"
  using assms unfolding performSimilaritySearch_def relevanceThreshold_def Let_def
  by simp

text \<open>
  C9, as the code has it. For every chat request that gets past the checks of the
  handler (the controller is initialised and the query is not blank) and supplies a
  temperature (a number; JSON has no NaN), the chat model is replaced by a
  \<^verbatim>\<open>gemini-2.0-flash\<close> model whose temperature is the supplied one clamped to the
  interval from 0 to 2: below 0 it becomes 0, above 2 it becomes 2, and in between it
  is kept. When the temperature is omitted the model stays as it was.
\<close>

theorem chat_temperature_clamped:
  assumes "isInitialized st" and "query request = Some q" and "trim q \<noteq> []"
  shows "(temperature request = Some t \<longrightarrow>
            model (snd (chat E st request)) =
              \<lparr>modelName = ''gemini-2.0-flash'', modelTemperature = clampTemperature t\<rparr>
            \<and> js_le (Num 0) (clampTemperature t) \<and> js_le (clampTemperature t) (Num 2)
            \<and> (if \<not> js_le (Num 0) t then clampTemperature t = Num 0
                else if \<not> js_le t (Num 2) then clampTemperature t = Num 2
                else clampTemperature t = t))
         \<and> (temperature request = None \<longrightarrow> model (snd (chat E st request)) = model st)"
  using chat_model_after [OF assms, of E] clampTemperature_cases [of t] by simp

text \<open>A temperature of 3.5 becomes 2; without a temperature the model keeps 0.6.\<close>

theorem chat_temperature_clamped_witness:
  "model (snd (chat sampleWorld readyState
      \<lparr>query = Some ''rent'', limit = None, temperature = Some (Num (7 / 2))\<rparr>)) =
     \<lparr>modelName = ''gemini-2.0-flash'', modelTemperature = Num 2\<rparr>
   \<and> model (snd (chat sampleWorld readyState
      \<lparr>query = Some ''rent'', limit = None, temperature = None\<rparr>)) =
     \<lparr>modelName = ''gemini-2.0-flash'', modelTemperature = Num (6 / 10)\<rparr>"
proof -
  have i: "isInitialized readyState" by (simp add: readyState_def)
  have "\<not> js_le (Num (7 / 2)) (Num 2)" by simp
  then have c: "clampTemperature (Num (7 / 2)) = Num 2"
    by (simp add: clampTemperature_def Math_max_def Math_min_def)
  have "model (snd (chat sampleWorld readyState
      \<lparr>query = Some ''rent'', limit = None, temperature = Some (Num (7 / 2))\<rparr>)) =
     \<lparr>modelName = ''gemini-2.0-flash'', modelTemperature = Num 2\<rparr>"
    using chat_temperature_clamped [OF i _ trim_rent,
        of "\<lparr>query = Some ''rent'', limit = None, temperature = Some (Num (7 / 2))\<rparr>"
           "Num (7 / 2)" sampleWorld] c
    by simp
  moreover have "model (snd (chat sampleWorld readyState
      \<lparr>query = Some ''rent'', limit = None, temperature = None\<rparr>)) =
     \<lparr>modelName = ''gemini-2.0-flash'', modelTemperature = Num (6 / 10)\<rparr>"
    using chat_temperature_clamped [OF i _ trim_rent,
        of "\<lparr>query = Some ''rent'', limit = None, temperature = None\<rparr>"
           "Num 0" sampleWorld]
    by (simp add: readyState_def)
  ultimately show ?thesis by simp
qed

text \<open>
  C9 as stated fails for a request that supplies a temperature and a blank query: the
  handler throws \<^verbatim>\<open>Query is required\<close> before it reaches the temperature, and the
  model keeps the temperature 0.6 although 3.5 was supplied.
\<close>

theorem blank_query_keeps_model_counterexample:
  "fst (chat sampleWorld readyState
          \<lparr>query = Some ''  '', limit = None, temperature = Some (Num (7 / 2))\<rparr>) =
     Inl (BadRequestException ''Chat processing failed: Query is required'')
   \<and> model (snd (chat sampleWorld readyState
          \<lparr>query = Some ''  '', limit = None, temperature = Some (Num (7 / 2))\<rparr>)) =
     \<lparr>modelName = ''gemini-2.0-flash'', modelTemperature = Num (6 / 10)\<rparr>
   \<and> clampTemperature (Num (7 / 2)) = Num 2"
  by (simp add: chat_def chatTry_def ensureInitialized_def trim_blank readyState_def
      clampTemperature_def Math_max_def Math_min_def)

text \<open>
  C10. For every chat request that passes the checks of the handler and whose similarity
  search returns only matches below the threshold 0.5, the handler returns the fixed
  response \<^verbatim>\<open>I couldn't find any relevant transaction data for your query.\<close> with
  \<open>resultsFound = 0\<close>, and the only calls made are the embedding of the query and the
  search: the chat model is not invoked.
\<close>

theorem chat_without_matches:
  assumes "isInitialized st" and "query request = Some q" and "trim q \<noteq> []"
      and "embedQuery E (trace st) q = Inr v"
      and "similaritySearchVectorWithScore E (trace st @ [EmbedQuery q]) v
             (case limit request of None \<Rightarrow> Num 4 | Some l \<Rightarrow> l) = Inr raw"
      and "\<forall>(d, s) \<in> set raw. \<not> js_ge s lit_0_5"
  shows "fst (chat E st request) =
           Inr \<lparr>response = TextContent
                  ''I couldn't find any relevant transaction data for your query.'',
                responseQuery = q, resultsFound = 0, responseMetadata = None\<rparr>
         \<and> trace (snd (chat E st request)) =
             trace st @ [EmbedQuery q,
                         SimilaritySearch v (case limit request of None \<Rightarrow> Num 4 | Some l \<Rightarrow> l)]
         \<and> modelInvocations (trace (snd (chat E st request))) = modelInvocations (trace st)"
proof -
  let ?k = "case limit request of None \<Rightarrow> Num 4 | Some l \<Rightarrow> l"
  let ?st1 = "case temperature request of
                None \<Rightarrow> st
              | Some t \<Rightarrow>
                  st\<lparr>model := \<lparr>modelName = ''gemini-2.0-flash'',
                                modelTemperature = clampTemperature t\<rparr>\<rparr>"
  have tr: "trace ?st1 = trace st" by (simp split: option.splits)
  from assms(6) have empty: "filter (\<lambda>(d, s). js_ge s lit_0_5) raw = []"
    by (auto simp: filter_empty_conv)
  have search: "performSimilaritySearch E (trace ?st1) q ?k =
      (Inr [], trace st @ [EmbedQuery q, SimilaritySearch v ?k])"
    unfolding tr using performSimilaritySearch_ok [OF assms(4) assms(5)] empty by simp
  have "chatTry E st request =
      (Inr \<lparr>response = TextContent
               ''I couldn't find any relevant transaction data for your query.'',
             responseQuery = q, resultsFound = 0, responseMetadata = None\<rparr>,
       ?st1\<lparr>trace := trace st @ [EmbedQuery q, SimilaritySearch v ?k]\<rparr>)"
    unfolding chatTry_valid [OF assms(1,2,3)] Let_def search by simp
  then show ?thesis
    by (simp add: chat_def modelInvocations_def)
qed

text \<open>On the world whose only match has the score 0.3.\<close>

theorem chat_without_matches_witness:
  "fst (chat weakMatchWorld readyState
          \<lparr>query = Some ''balance of the moon'', limit = None, temperature = Some (Num 1)\<rparr>) =
     Inr \<lparr>response = TextContent
            ''I couldn't find any relevant transaction data for your query.'',
          responseQuery = ''balance of the moon'', resultsFound = 0, responseMetadata = None\<rparr>
   \<and> trace (snd (chat weakMatchWorld readyState
          \<lparr>query = Some ''balance of the moon'', limit = None, temperature = Some (Num 1)\<rparr>)) =
     [EmbedQuery ''balance of the moon'', SimilaritySearch [Num 1, Num 0] (Num 4)]"
proof -
  have i: "isInitialized readyState" by (simp add: readyState_def)
  have e: "embedQuery weakMatchWorld (trace readyState) ''balance of the moon'' = Inr [Num 1, Num 0]"
    by (simp add: weakMatchWorld_def sampleWorld_def)
  have s: "similaritySearchVectorWithScore weakMatchWorld
             (trace readyState @ [EmbedQuery ''balance of the moon'']) [Num 1, Num 0]
             (case limit \<lparr>query = Some ''balance of the moon'', limit = None,
                          temperature = Some (Num 1)\<rparr> of None \<Rightarrow> Num 4 | Some l \<Rightarrow> l)
           = Inr [(sampleDoc ''note'', Num (3 / 10))]"
    by (simp add: weakMatchWorld_def sampleWorld_def)
  have w: "\<forall>(d, s) \<in> set [(sampleDoc ''note'', Num (3 / 10))]. \<not> js_ge s lit_0_5"
    by (simp add: js_ge_def lit_0_5_def)
  show ?thesis
    using chat_without_matches [OF i _ trim_balance e s w]
    by (simp add: readyState_def)
qed

section \<open>The fallback analysis\<close>

lemma fallback_processingError:
  "property (generateFallbackAnalysis td out) ''processingError'' = Some (JBool True)"
  by (simp add: generateFallbackAnalysis_def property_def)

lemma enhancedJsonParser_unparseable:
  assumes "contentOrString out = JStr c"
      and "JSON_parse E (extractObject (stripFences (trim c))) = None"
  shows "enhancedJsonParser E td out = generateFallbackAnalysis td out"
  using assms by (simp add: enhancedJsonParser_def)

lemma sample_output_stripped:
  "extractObject (stripFences (trim
      (''```json'' @ [CHR 0x0A] @ ''{\"totalTransactions\": }'' @ [CHR 0x0A] @ ''```''))) =
   ''{\"totalTransactions\": }''"
  by code_simp

text \<open>
  C3. Whenever the output of the chat model during summarization is text that
  \<^verbatim>\<open>JSON.parse\<close> rejects after the trimming, the removal of the code fences and the
  extraction of the outermost braces, the parser returns the fallback analysis, so does
  \<open>generateFinancialAnalysis\<close>, and \<open>summarize\<close> returns it as the insights of its reply.
  The fallback analysis has the property \<open>processingError\<close> set to true, whatever the
  transaction data and the output are.
\<close>

theorem unparseable_output_gives_fallback:
  assumes "isInitialized st"
      and "getTransactionData E (trace st) = (Inr td, tr1)" and "td \<noteq> []"
      and "invoke E tr1 (model st) (AnalysisPrompt (contextProcessor E td)) = Inr out"
      and "contentOrString out = JStr c"
      and "JSON_parse E (extractObject (stripFences (trim c))) = None"
  shows "enhancedJsonParser E td out = generateFallbackAnalysis td out
       \<and> fst (generateFinancialAnalysis E tr1 td (model st)) =
           Inr (generateFallbackAnalysis td out)
       \<and> fst (summarize E st) =
           Inr \<lparr>success = True, summarizeError = None, details = None, suggestion = None,
                recordsAnalyzed = Some (length td),
                period = Some (extractPeriodInfo td),
                insights = Some (generateFallbackAnalysis td out),
                generatedAt = Some (toISOString E
                  (tr1 @ [InvokeModel (model st) (AnalysisPrompt (contextProcessor E td))]))\<rparr>
       \<and> property (generateFallbackAnalysis td out) ''processingError'' = Some (JBool True)"
proof -
  have p: "enhancedJsonParser E td out = generateFallbackAnalysis td out"
    by (rule enhancedJsonParser_unparseable [OF assms(5) assms(6)])
  have g: "generateFinancialAnalysis E tr1 td (model st) =
      (Inr (generateFallbackAnalysis td out),
       tr1 @ [InvokeModel (model st) (AnalysisPrompt (contextProcessor E td))])"
    using assms(4) p by (simp add: generateFinancialAnalysis_def Let_def)
  have "summarizeTry E st =
      (Inr \<lparr>success = True, summarizeError = None, details = None, suggestion = None,
            recordsAnalyzed = Some (length td),
            period = Some (extractPeriodInfo td),
            insights = Some (generateFallbackAnalysis td out),
            generatedAt = Some (toISOString E
              (tr1 @ [InvokeModel (model st) (AnalysisPrompt (contextProcessor E td))]))\<rparr>,
       st\<lparr>trace := tr1 @ [InvokeModel (model st) (AnalysisPrompt (contextProcessor E td))]\<rparr>)"
    using assms(3) by (simp add: summarizeTry_def assms(2) g)
  then have "fst (summarize E st) =
      Inr \<lparr>success = True, summarizeError = None, details = None, suggestion = None,
            recordsAnalyzed = Some (length td),
            period = Some (extractPeriodInfo td),
            insights = Some (generateFallbackAnalysis td out),
            generatedAt = Some (toISOString E
              (tr1 @ [InvokeModel (model st) (AnalysisPrompt (contextProcessor E td))]))\<rparr>"
    using assms(1) by (simp add: summarize_def ensureInitialized_def)
  with p g fallback_processingError show ?thesis by simp
qed

text \<open>
  On the sample world the model answers with a fenced block; stripped, it is
  \<^verbatim>\<open>{"totalTransactions": }\<close>, which is not JSON.
\<close>

theorem unparseable_output_gives_fallback_witness:
  "map_sum id insights (fst (summarize sampleWorld readyState)) =
     Inr (Some (generateFallbackAnalysis
       [(sampleDoc ''rent,1200,payment'', Num (9 / 10)),
        (sampleDoc ''salary,5000,deposit'', Num (7 / 10))]
       \<lparr>content = TextContent
          (''```json'' @ [CHR 0x0A] @ ''{\"totalTransactions\": }'' @ [CHR 0x0A] @ ''```''),
        toString = ''[object Object]''\<rparr>))
   \<and> map_sum id success (fst (summarize sampleWorld readyState)) = Inr True"
proof -
  let ?out = "\<lparr>content = TextContent
          (''```json'' @ [CHR 0x0A] @ ''{\"totalTransactions\": }'' @ [CHR 0x0A] @ ''```''),
        toString = ''[object Object]''\<rparr>"
  let ?td = "[(sampleDoc ''rent,1200,payment'', Num (9 / 10)),
              (sampleDoc ''salary,5000,deposit'', Num (7 / 10))]"
  have i: "isInitialized readyState" by (simp add: readyState_def)
  have t: "getTransactionData sampleWorld (trace readyState) =
      (Inr ?td,
       [EmbedQuery ''financial transaction bank payment deposit withdrawal expense income'',
        SimilaritySearch [Num 1, Num 0] (Num 50)])"
    using sample_transactions by (simp add: readyState_def)
  have n: "?td \<noteq> []" by simp
  have v: "invoke sampleWorld
      [EmbedQuery ''financial transaction bank payment deposit withdrawal expense income'',
       SimilaritySearch [Num 1, Num 0] (Num 50)]
      (model readyState) (AnalysisPrompt (contextProcessor sampleWorld ?td)) = Inr ?out"
    by (simp add: sampleWorld_def)
  have c: "contentOrString ?out =
      JStr (''```json'' @ [CHR 0x0A] @ ''{\"totalTransactions\": }'' @ [CHR 0x0A] @ ''```'')"
    by (simp add: contentOrString_def)
  have j: "JSON_parse sampleWorld (extractObject (stripFences (trim
      (''```json'' @ [CHR 0x0A] @ ''{\"totalTransactions\": }'' @ [CHR 0x0A] @ ''```'')))) = None"
    unfolding sample_output_stripped by (simp add: sampleWorld_def)
  show ?thesis
    using unparseable_output_gives_fallback [OF i t n v c j] by simp
qed

section \<open>Caught errors\<close>

lemma sync_accepted:
  assumes "mimetype f = ''text/csv'' \<or> endsWith (originalname f) ''.csv''"
      and "isInitialized st"
  shows "sync E st (Some f) =
     (case syncTry E (trace st) f (tempPath E (trace st) f) of
        (r, tr1) \<Rightarrow>
          (case r of
             Inl e \<Rightarrow> Inl (BadRequestException (''Failed to process CSV: '' @ message e))
           | Inr v \<Rightarrow> Inr v,
           st\<lparr>trace :=
             if tempPath E (trace st) f \<noteq> []
             then tr1 @ [Unlink (tempPath E (trace st) f)] else tr1\<rparr>))"
  using assms
  by (auto simp: sync_def ensureInitialized_def Let_def split: prod.splits option.splits)

lemma sampleWorld_calls:
  "writeFile sampleWorld tr p b = None"
  "csvLoad sampleWorld tr p = Inr [sampleDoc ''rent,1200,payment'']"
  "embedQuery sampleWorld tr q = Inr [Num 1, Num 0]"
  "addDocuments sampleWorld tr ds = None"
  "unlink sampleWorld tr p = None"
  by (simp_all add: sampleWorld_def)

lemma noUpsertWorld_calls:
  "writeFile noUpsertWorld tr p b = None"
  "csvLoad noUpsertWorld tr p = Inr [sampleDoc ''rent,1200,payment'']"
  "embedQuery noUpsertWorld tr q = Inr [Num 1, Num 0]"
  "addDocuments noUpsertWorld tr ds = Some (Error ''Vector dimension 0 does not match'')"
  "unlink noUpsertWorld tr p = None"
  by (simp_all add: noUpsertWorld_def sampleWorld_def)

lemma noEmbeddingWorld_calls:
  "writeFile noEmbeddingWorld tr p b = None"
  "csvLoad noEmbeddingWorld tr p = Inr [sampleDoc ''rent,1200,payment'']"
  "embedQuery noEmbeddingWorld tr q = Inl (Error ''quota exceeded'')"
  "unlink noEmbeddingWorld tr p = None"
  by (simp_all add: noEmbeddingWorld_def sampleWorld_def)

lemma sample_tempPath:
  "tempPath sampleWorld tr sampleUpload = sampleTempPath"
  "tempPath noUpsertWorld tr sampleUpload = sampleTempPath"
  "tempPath noEmbeddingWorld tr sampleUpload = sampleTempPath"
  by (simp_all add: tempPath_def sampleWorld_def noUpsertWorld_def noEmbeddingWorld_def
      sampleUpload_def sampleTempPath_def)

lemma sampleTempPath_nonempty: "sampleTempPath \<noteq> []"
  by (simp add: sampleTempPath_def)

lemma sampleUpload_accepted:
  "mimetype sampleUpload = ''text/csv''" "isInitialized readyState" "trace readyState = []"
  by (simp_all add: sampleUpload_def readyState_def)

lemma noEmbedding_summarizeTry:
  "summarizeTry noEmbeddingWorld readyState =
     (Inl (Error ''quota exceeded''),
      readyState\<lparr>trace :=
        [EmbedQuery ''financial transaction bank payment deposit withdrawal expense income'']\<rparr>)"
  by (simp add: summarizeTry_def getTransactionData_def noEmbeddingWorld_def sampleWorld_def
      readyState_def)

lemma noEmbedding_chatTry:
  "chatTry noEmbeddingWorld readyState \<lparr>query = Some ''rent'', limit = None, temperature = None\<rparr> =
     (Inl (Error ''quota exceeded''), readyState\<lparr>trace := [EmbedQuery ''rent'']\<rparr>)"
  by (simp add: chatTry_valid [OF sampleUpload_accepted(2) _ trim_rent]
      performSimilaritySearch_def noEmbeddingWorld_calls sampleUpload_accepted)

lemma noEmbedding_syncTry:
  "syncTry noEmbeddingWorld [] sampleUpload sampleTempPath =
     (Inl (Error ''quota exceeded''),
      [WriteFile sampleTempPath (buffer sampleUpload), CsvLoad sampleTempPath,
       EmbedQuery ''rent,1200,payment''])"
  by (simp add: syncTry_def noEmbeddingWorld_calls syncProcess_def testEmbedding_def
      sampleDoc_def)

lemma noEmbedding_sync:
  "sync noEmbeddingWorld readyState (Some sampleUpload) =
     (Inl (BadRequestException ''Failed to process CSV: quota exceeded''),
      readyState\<lparr>trace :=
        [WriteFile sampleTempPath (buffer sampleUpload), CsvLoad sampleTempPath,
         EmbedQuery ''rent,1200,payment'', Unlink sampleTempPath]\<rparr>)"
  by (simp add: sync_accepted sampleUpload_accepted sample_tempPath noEmbedding_syncTry
      sampleTempPath_nonempty)

text \<open>
  C5, as the code has it. An error caught by the \<^verbatim>\<open>catch\<close> of the chat handler is thrown
  again as a BadRequestException (HTTP 400) with the message
  \<^verbatim>\<open>Chat processing failed: \<close> followed by the message of the error; one caught by the
  \<^verbatim>\<open>catch\<close> of the sync handler likewise with \<^verbatim>\<open>Failed to process CSV: \<close>. An error
  caught by the \<^verbatim>\<open>catch\<close> of the summarize handler is not thrown again: the handler
  returns (HTTP 200) an object with \<open>success\<close> false, the error
  \<^verbatim>\<open>Failed to generate financial summary\<close> and the message of the error as \<open>details\<close>.
\<close>

theorem caught_errors_by_endpoint:
  "(chatTry E st request = (Inl e, st1) \<longrightarrow>
      chat E st request =
        (Inl (BadRequestException (''Chat processing failed: '' @ message e)), st1)
      \<and> httpStatus POST (fst (chat E st request)) = 400)
   \<and> ((mimetype f = ''text/csv'' \<or> endsWith (originalname f) ''.csv'') \<and> isInitialized st
        \<and> syncTry E (trace st) f (tempPath E (trace st) f) = (Inl e, tr1) \<longrightarrow>
      fst (sync E st (Some f)) =
        Inl (BadRequestException (''Failed to process CSV: '' @ message e))
      \<and> httpStatus POST (fst (sync E st (Some f))) = 400)
   \<and> (isInitialized st \<and> summarizeTry E st = (Inl e, st1) \<longrightarrow>
      summarize E st =
        (Inr \<lparr>success = False,
              summarizeError = Some ''Failed to generate financial summary'',
              details = Some (message e),
              suggestion = Some ''Please check your transaction data format and try again'',
              recordsAnalyzed = None, period = None, insights = None,
              generatedAt = None\<rparr>, st1)
      \<and> httpStatus GET (fst (summarize E st)) = 200)"
  by (auto simp: chat_def sync_def summarize_def ensureInitialized_def Let_def)

text \<open>With an embedding service that rejects every call, on the three endpoints.\<close>

theorem caught_errors_by_endpoint_witness:
  "fst (chat noEmbeddingWorld readyState
          \<lparr>query = Some ''rent'', limit = None, temperature = None\<rparr>) =
     Inl (BadRequestException ''Chat processing failed: quota exceeded'')
   \<and> fst (sync noEmbeddingWorld readyState (Some sampleUpload)) =
     Inl (BadRequestException ''Failed to process CSV: quota exceeded'')
   \<and> fst (summarize noEmbeddingWorld readyState) =
     Inr \<lparr>success = False,
          summarizeError = Some ''Failed to generate financial summary'',
          details = Some ''quota exceeded'',
          suggestion = Some ''Please check your transaction data format and try again'',
          recordsAnalyzed = None, period = None, insights = None, generatedAt = None\<rparr>
   \<and> httpStatus GET (fst (summarize noEmbeddingWorld readyState)) = 200"
  using caught_errors_by_endpoint [of noEmbeddingWorld readyState
      "\<lparr>query = Some ''rent'', limit = None, temperature = None\<rparr>"
      "Error ''quota exceeded''" "readyState\<lparr>trace := [EmbedQuery ''rent'']\<rparr>"
      sampleUpload
      "[WriteFile sampleTempPath (buffer sampleUpload), CsvLoad sampleTempPath,
        EmbedQuery ''rent,1200,payment'']"]
    caught_errors_by_endpoint [of noEmbeddingWorld readyState
      "\<lparr>query = Some ''rent'', limit = None, temperature = None\<rparr>"
      "Error ''quota exceeded''"
      "readyState\<lparr>trace :=
        [EmbedQuery ''financial transaction bank payment deposit withdrawal expense income'']\<rparr>"
      sampleUpload
      "[WriteFile sampleTempPath (buffer sampleUpload), CsvLoad sampleTempPath,
        EmbedQuery ''rent,1200,payment'']"]
  by (simp add: noEmbedding_chatTry noEmbedding_syncTry noEmbedding_summarizeTry
      sampleUpload_accepted sample_tempPath)

text \<open>
  C5 as stated fails on summarize: with the embedding service down, the body of the
  \<^verbatim>\<open>try\<close> throws, and the reply is an object answered with HTTP 200, not HTTP 400.
\<close>

theorem summarize_error_not_400_counterexample:
  "fst (summarizeTry noEmbeddingWorld readyState) = Inl (Error ''quota exceeded'')
   \<and> fst (summarize noEmbeddingWorld readyState) =
       Inr \<lparr>success = False,
            summarizeError = Some ''Failed to generate financial summary'',
            details = Some ''quota exceeded'',
            suggestion = Some ''Please check your transaction data format and try again'',
            recordsAnalyzed = None, period = None, insights = None, generatedAt = None\<rparr>
   \<and> httpStatus GET (fst (summarize noEmbeddingWorld readyState)) \<noteq> 400"
  by (simp add: summarize_def ensureInitialized_def noEmbedding_summarizeTry)
    (simp add: readyState_def)

section \<open>The batches of sync\<close>

lemma syncTotalBatches_div: "syncTotalBatches n = (n + 49) div 50"
proof -
  have "\<lceil>real n / real syncBatchSize\<rceil> = \<lceil>(of_int (int n) :: real) / of_int 50\<rceil>"
    by (simp add: syncBatchSize_def)
  also have "\<dots> = - (- int n div 50)"
    by (rule ceiling_divide_eq_div)
  finally show ?thesis
    unfolding syncTotalBatches_def by simp
qed

lemma syncTotalBatches_ceiling: "syncTotalBatches n = nat \<lceil>real n / 50\<rceil>"
  by (simp add: syncTotalBatches_def syncBatchSize_def)

lemma slice_nth: "e \<le> length xs \<Longrightarrow> slice xs s e = map (\<lambda>j. xs ! j) [s..<e]"
  unfolding slice_def
  by (rule nth_equalityI) auto

lemma slice_batchAt:
  "slice docs (i * 50) (min (50 + i * 50) (length docs)) = batchAt docs i"
  by (simp add: slice_nth batchAt_def)

lemma loopEvents_Suc: "loopEvents docs (Suc k) = loopEvents docs k @ batchEvents docs k"
  by (simp add: loopEvents_def)

lemma syncLoop_step:
  assumes "i < syncTotalBatches (length docs)"
  shows "syncLoop E docs i (pc, res, tr0 @ loopEvents docs i) =
     syncLoop E docs (Suc i)
       (pc + documentsProcessed (batchEntry E tr0 docs i),
        res @ [batchEntry E tr0 docs i],
        tr0 @ loopEvents docs (Suc i))"
proof -
  have pause: "(int i < int (syncTotalBatches (length docs)) - 1) =
      (i + 1 < nat \<lceil>real (length docs) / 50\<rceil>)"
    unfolding syncTotalBatches_ceiling [symmetric] by auto
  show ?thesis
    by (subst syncLoop.simps)
      (simp add: assms Let_def syncBatchSize_def add.commute [of "i * 50" 50] slice_batchAt
        pause loopEvents_Suc batchEvents_def batchEntry_def split: option.splits)
qed

lemma syncLoop_closed:
  assumes "i \<le> syncTotalBatches (length docs)"
  shows "syncLoop E docs i (pc, res, tr0 @ loopEvents docs i) =
     (pc + sum_list (map (\<lambda>j. documentsProcessed (batchEntry E tr0 docs j))
                      [i..<syncTotalBatches (length docs)]),
      res @ map (batchEntry E tr0 docs) [i..<syncTotalBatches (length docs)],
      tr0 @ loopEvents docs (syncTotalBatches (length docs)))"
  using assms
proof (induction "syncTotalBatches (length docs) - i" arbitrary: i pc res)
  case 0
  then have "i = syncTotalBatches (length docs)" by simp
  then show ?case by (subst syncLoop.simps) simp
next
  case (Suc k)
  then have lt: "i < syncTotalBatches (length docs)" by simp
  have k: "k = syncTotalBatches (length docs) - Suc i" using Suc(2) by simp
  have le: "Suc i \<le> syncTotalBatches (length docs)" using lt by simp
  show ?case
    unfolding syncLoop_step [OF lt] Suc(1) [OF k le]
    by (simp add: upt_conv_Cons [OF lt])
qed

lemma syncLoop_from_start:
  "syncLoop E docs 0 (0, [], tr) =
     (sum_list (map (\<lambda>j. documentsProcessed (batchEntry E tr docs j))
                 [0..<syncTotalBatches (length docs)]),
      map (batchEntry E tr docs) [0..<syncTotalBatches (length docs)],
      tr @ loopEvents docs (syncTotalBatches (length docs)))"
  using syncLoop_closed [of 0 docs E 0 "[]" tr] by (simp add: loopEvents_def)

lemma batchEntry_failed:
  "addDocuments E (tr @ loopEvents docs i) (batchAt docs i) = Some e \<Longrightarrow>
   documentsProcessed (batchEntry E tr docs i) = 0
   \<and> status (batchEntry E tr docs i) = ''error''
   \<and> error (batchEntry E tr docs i) = Some (message e)"
  by (simp add: batchEntry_def)

lemma loopEvents_last:
  "last (loopEvents docs (Suc m)) =
     (if Suc m < nat \<lceil>real (length docs) / 50\<rceil> then SetTimeout 2000
      else AddDocuments (batchAt docs m))"
  by (simp add: loopEvents_Suc batchEvents_def)

lemma syncProcess_closed:
  assumes "testEmbedding E tr0 docs = (None, tr)"
  shows "syncProcess E tr0 docs =
     (Inr \<lparr>totalDocuments = length docs,
           processedDocuments =
             sum_list (map (\<lambda>j. documentsProcessed (batchEntry E tr docs j))
                        [0..<syncTotalBatches (length docs)]),
           totalBatches = syncTotalBatches (length docs),
           batchSize = 50,
           embeddingModel = ''gemini-embedding-001'',
           expectedEmbeddingDimension = 3072,
           results = map (batchEntry E tr docs) [0..<syncTotalBatches (length docs)],
           summary =
             \<lparr>successful = length (filter (\<lambda>r. status r = ''success'')
                 (map (batchEntry E tr docs) [0..<syncTotalBatches (length docs)])),
              failed = length (filter (\<lambda>r. status r = ''error'')
                 (map (batchEntry E tr docs) [0..<syncTotalBatches (length docs)]))\<rparr>\<rparr>,
      tr @ loopEvents docs (syncTotalBatches (length docs)))"
  by (simp add: syncProcess_def assms syncLoop_from_start syncBatchSize_def)

lemma length_batchAt: "length (batchAt docs i) = min ((i + 1) * 50) (length docs) - i * 50"
  by (simp add: batchAt_def)

lemma length_loopEvents:
  "i < nat \<lceil>real (length docs) / 50\<rceil> \<Longrightarrow> length (loopEvents docs i) = 2 * i"
  by (induction i) (simp_all add: loopEvents_def batchEvents_def)

lemma upt3: "[0..<3] = [0, 1, 2]"
  by (simp add: upt_rec)

lemma manyDocs_batches: "nat \<lceil>real (length manyDocs) / 50\<rceil> = 3"
  by (simp add: manyDocs_def)

lemma manyDocs_events:
  "loopEvents manyDocs 3 =
     [AddDocuments (batchAt manyDocs 0), SetTimeout 2000,
      AddDocuments (batchAt manyDocs 1), SetTimeout 2000,
      AddDocuments (batchAt manyDocs 2)]"
  by (simp add: loopEvents_def batchEvents_def manyDocs_batches upt3)

lemma manyDocs_results:
  "map (\<lambda>r. (batchNumber r, documentsInBatch r, documentsProcessed r, startIndex r,
              endIndex r, status r, error r))
     (map (batchEntry secondUpsertFailsWorld [] manyDocs) [0..<3]) =
   [(1, 50, 50, 0, 49, ''success'', None),
    (2, 50, 0, 50, 99, ''error'', Some ''upsert timed out''),
    (3, 20, 20, 100, 119, ''success'', None)]"
  by (simp add: upt3 batchEntry_def secondUpsertFailsWorld_def sampleWorld_def
      length_batchAt length_loopEvents manyDocs_batches)
    (simp add: manyDocs_def)

lemma manyDocs_processed:
  "sum_list (map (\<lambda>i. documentsProcessed (batchEntry secondUpsertFailsWorld [] manyDocs i))
     [0..<3]) = 70"
  by (simp add: upt3 batchEntry_def secondUpsertFailsWorld_def sampleWorld_def
      length_batchAt length_loopEvents manyDocs_batches)
    (simp add: manyDocs_def)

text \<open>
  C6, as the code has it. For every list of \<open>n\<close> parsed documents the loop of \<open>sync\<close>
  makes exactly \<open>\<lceil>n / 50\<rceil>\<close> upserts, in order, batch \<open>i\<close> being the documents at the
  indices from \<open>i * 50\<close> up to \<open>min ((i + 1) * 50) n\<close> exclusive: the results are the
  entries of the batches \<open>0, ..., \<lceil>n / 50\<rceil> - 1\<close> and the trace grows by \<open>loopEvents\<close>,
  an upsert per batch with a timer of 2000 ms after each batch but the last. This does
  not depend on which upserts fail: a rejected upsert gives an error entry with
  \<open>documentsProcessed = 0\<close> and the loop goes on. \<open>sync\<close> runs this loop, and
  \<open>syncProcess\<close> has these results and this trace, when the test embedding of the
  first document does not throw (or there is no document).
\<close>

theorem sync_batches_in_order:
  "syncLoop E docs 0 (0, [], tr) =
     (sum_list (map (\<lambda>i. documentsProcessed (batchEntry E tr docs i))
                 [0..<nat \<lceil>real (length docs) / 50\<rceil>]),
      map (batchEntry E tr docs) [0..<nat \<lceil>real (length docs) / 50\<rceil>],
      tr @ loopEvents docs (nat \<lceil>real (length docs) / 50\<rceil>))
   \<and> (testEmbedding E tr0 docs = (None, tr) \<longrightarrow>
        map_sum id results (fst (syncProcess E tr0 docs)) =
          Inr (map (batchEntry E tr docs) [0..<nat \<lceil>real (length docs) / 50\<rceil>])
        \<and> snd (syncProcess E tr0 docs) =
            tr @ loopEvents docs (nat \<lceil>real (length docs) / 50\<rceil>))
   \<and> (\<forall>e. addDocuments E (tr @ loopEvents docs i) (batchAt docs i) = Some e \<longrightarrow>
          documentsProcessed (batchEntry E tr docs i) = 0
          \<and> status (batchEntry E tr docs i) = ''error''
          \<and> error (batchEntry E tr docs i) = Some (message e))
   \<and> (docs \<noteq> [] \<longrightarrow>
        last (loopEvents docs (nat \<lceil>real (length docs) / 50\<rceil>)) =
          AddDocuments (batchAt docs (nat \<lceil>real (length docs) / 50\<rceil> - 1)))"
proof -
  have "docs \<noteq> [] \<Longrightarrow> 0 < nat \<lceil>real (length docs) / 50\<rceil>"
    unfolding syncTotalBatches_ceiling [symmetric] syncTotalBatches_div
    by (cases docs) auto
  then have suc: "docs \<noteq> [] \<Longrightarrow>
      nat \<lceil>real (length docs) / 50\<rceil> = Suc (nat \<lceil>real (length docs) / 50\<rceil> - 1)"
    by simp
  have final: "docs \<noteq> [] \<Longrightarrow>
      last (loopEvents docs (nat \<lceil>real (length docs) / 50\<rceil>)) =
        AddDocuments (batchAt docs (nat \<lceil>real (length docs) / 50\<rceil> - 1))"
    by (subst suc, assumption, subst loopEvents_last) simp
  show ?thesis
    using syncLoop_from_start [of E docs tr] syncProcess_closed [of E tr0 docs tr]
      batchEntry_failed [of E tr docs i] final
    by (simp add: syncTotalBatches_ceiling)
qed

text \<open>
  With 120 documents and a vector store that rejects the second upsert: three batches
  of 50, 50 and 20 documents, the second an error entry, 70 documents processed, and
  two timers between the three upserts.
\<close>

theorem sync_batches_in_order_witness:
  "fst (syncLoop secondUpsertFailsWorld manyDocs 0 (0, [], [])) = 70
   \<and> map (\<lambda>r. (batchNumber r, documentsInBatch r, documentsProcessed r, startIndex r,
                endIndex r, status r, error r))
       (fst (snd (syncLoop secondUpsertFailsWorld manyDocs 0 (0, [], [])))) =
     [(1, 50, 50, 0, 49, ''success'', None),
      (2, 50, 0, 50, 99, ''error'', Some ''upsert timed out''),
      (3, 20, 20, 100, 119, ''success'', None)]
   \<and> snd (snd (syncLoop secondUpsertFailsWorld manyDocs 0 (0, [], []))) =
     [AddDocuments (batchAt manyDocs 0), SetTimeout 2000,
      AddDocuments (batchAt manyDocs 1), SetTimeout 2000,
      AddDocuments (batchAt manyDocs 2)]"
proof -
  have "syncLoop secondUpsertFailsWorld manyDocs 0 (0, [], []) =
     (sum_list (map (\<lambda>i. documentsProcessed (batchEntry secondUpsertFailsWorld [] manyDocs i))
                 [0..<3]),
      map (batchEntry secondUpsertFailsWorld [] manyDocs) [0..<3],
      [] @ loopEvents manyDocs 3)"
    using sync_batches_in_order [of secondUpsertFailsWorld manyDocs "[]"]
    unfolding manyDocs_batches by (rule conjunct1)
  then show ?thesis
    by (simp only: fst_conv snd_conv manyDocs_processed manyDocs_results manyDocs_events
        append_Nil)
qed

text \<open>
  C6 as stated fails when the test embedding of the first document is rejected: the
  CSV with one row is loaded, one batch is due, and \<open>sync\<close> throws before the loop, so
  that the trace has no upsert at all.
\<close>

theorem failed_test_embedding_no_batch_counterexample:
  "csvLoad noEmbeddingWorld
     (trace readyState @
      [WriteFile (tempPath noEmbeddingWorld (trace readyState) sampleUpload)
         (buffer sampleUpload)])
     (tempPath noEmbeddingWorld (trace readyState) sampleUpload) =
     Inr [sampleDoc ''rent,1200,payment'']
   \<and> syncTotalBatches (length [sampleDoc ''rent,1200,payment'']) = 1
   \<and> sync noEmbeddingWorld readyState (Some sampleUpload) =
     (Inl (BadRequestException ''Failed to process CSV: quota exceeded''),
      readyState\<lparr>trace :=
        [WriteFile sampleTempPath (buffer sampleUpload), CsvLoad sampleTempPath,
         EmbedQuery ''rent,1200,payment'', Unlink sampleTempPath]\<rparr>)"
  by (simp add: noEmbedding_sync noEmbeddingWorld_calls syncTotalBatches_div)

section \<open>The counts of sync\<close>

lemma oneRow_loop:
  "syncTotalBatches (Suc 0) = Suc 0"
  "batchAt [d] 0 = [d]"
  "loopEvents [d] 0 = []"
  "loopEvents [d] (Suc 0) = [AddDocuments [d]]"
  by (simp_all add: syncTotalBatches_div batchAt_def loopEvents_def batchEvents_def)

lemma sample_syncTry:
  "syncTry sampleWorld [] sampleUpload sampleTempPath =
     (Inr \<lparr>totalDocuments = 1, processedDocuments = 1, totalBatches = 1, batchSize = 50,
           embeddingModel = ''gemini-embedding-001'', expectedEmbeddingDimension = 3072,
           results = [\<lparr>batchNumber = 1, documentsInBatch = 1, documentsProcessed = 1,
                       startIndex = 0, endIndex = 0, status = ''success'', error = None\<rparr>],
           summary = \<lparr>successful = 1, failed = 0\<rparr>\<rparr>,
      [WriteFile sampleTempPath (buffer sampleUpload), CsvLoad sampleTempPath,
       EmbedQuery ''rent,1200,payment'',
       AddDocuments [sampleDoc ''rent,1200,payment'']])"
proof -
  have t: "testEmbedding sampleWorld
      [WriteFile sampleTempPath (buffer sampleUpload), CsvLoad sampleTempPath]
      [sampleDoc ''rent,1200,payment''] =
      (None, [WriteFile sampleTempPath (buffer sampleUpload), CsvLoad sampleTempPath,
              EmbedQuery ''rent,1200,payment''])"
    by (simp add: testEmbedding_def sampleWorld_calls sampleDoc_def)
  show ?thesis
    by (simp add: syncTry_def sampleWorld_calls syncProcess_closed [OF t] oneRow_loop
        batchEntry_def)
qed

lemma noUpsert_syncTry:
  "syncTry noUpsertWorld [] sampleUpload sampleTempPath =
     (Inr \<lparr>totalDocuments = 1, processedDocuments = 0, totalBatches = 1, batchSize = 50,
           embeddingModel = ''gemini-embedding-001'', expectedEmbeddingDimension = 3072,
           results = [\<lparr>batchNumber = 1, documentsInBatch = 1, documentsProcessed = 0,
                       startIndex = 0, endIndex = 0, status = ''error'',
                       error = Some ''Vector dimension 0 does not match''\<rparr>],
           summary = \<lparr>successful = 0, failed = 1\<rparr>\<rparr>,
      [WriteFile sampleTempPath (buffer sampleUpload), CsvLoad sampleTempPath,
       EmbedQuery ''rent,1200,payment'',
       AddDocuments [sampleDoc ''rent,1200,payment'']])"
proof -
  have t: "testEmbedding noUpsertWorld
      [WriteFile sampleTempPath (buffer sampleUpload), CsvLoad sampleTempPath]
      [sampleDoc ''rent,1200,payment''] =
      (None, [WriteFile sampleTempPath (buffer sampleUpload), CsvLoad sampleTempPath,
              EmbedQuery ''rent,1200,payment''])"
    by (simp add: testEmbedding_def noUpsertWorld_calls sampleDoc_def)
  show ?thesis
    by (simp add: syncTry_def noUpsertWorld_calls syncProcess_closed [OF t] oneRow_loop
        batchEntry_def)
qed

lemma sample_sync:
  "sync sampleWorld readyState (Some sampleUpload) =
     (Inr \<lparr>totalDocuments = 1, processedDocuments = 1, totalBatches = 1, batchSize = 50,
           embeddingModel = ''gemini-embedding-001'', expectedEmbeddingDimension = 3072,
           results = [\<lparr>batchNumber = 1, documentsInBatch = 1, documentsProcessed = 1,
                       startIndex = 0, endIndex = 0, status = ''success'', error = None\<rparr>],
           summary = \<lparr>successful = 1, failed = 0\<rparr>\<rparr>,
      readyState\<lparr>trace :=
        [WriteFile sampleTempPath (buffer sampleUpload), CsvLoad sampleTempPath,
         EmbedQuery ''rent,1200,payment'',
         AddDocuments [sampleDoc ''rent,1200,payment''],
         Unlink sampleTempPath]\<rparr>)"
  by (simp add: sync_accepted sampleUpload_accepted sample_tempPath sample_syncTry
      sampleTempPath_nonempty)

lemma noUpsert_sync:
  "sync noUpsertWorld readyState (Some sampleUpload) =
     (Inr \<lparr>totalDocuments = 1, processedDocuments = 0, totalBatches = 1, batchSize = 50,
           embeddingModel = ''gemini-embedding-001'', expectedEmbeddingDimension = 3072,
           results = [\<lparr>batchNumber = 1, documentsInBatch = 1, documentsProcessed = 0,
                       startIndex = 0, endIndex = 0, status = ''error'',
                       error = Some ''Vector dimension 0 does not match''\<rparr>],
           summary = \<lparr>successful = 0, failed = 1\<rparr>\<rparr>,
      readyState\<lparr>trace :=
        [WriteFile sampleTempPath (buffer sampleUpload), CsvLoad sampleTempPath,
         EmbedQuery ''rent,1200,payment'',
         AddDocuments [sampleDoc ''rent,1200,payment''],
         Unlink sampleTempPath]\<rparr>)"
  by (simp add: sync_accepted sampleUpload_accepted sample_tempPath noUpsert_syncTry
      sampleTempPath_nonempty)

lemma sum_batch_sizes:
  "sum_list (map (\<lambda>i. length (batchAt docs i)) [0..<k]) = min (k * 50) (length docs)"
  by (induction k) (auto simp: length_batchAt)

lemma batches_cover: "min (syncTotalBatches n * 50) n = n"
  unfolding syncTotalBatches_div by (simp add: min_def) presburger

lemma batchEntry_fields:
  "documentsInBatch (batchEntry E tr docs i) = length (batchAt docs i)"
  "documentsProcessed (batchEntry E tr docs i) =
     (if status (batchEntry E tr docs i) = ''success'' then length (batchAt docs i) else 0)"
  "status (batchEntry E tr docs i) = ''success'' \<or> status (batchEntry E tr docs i) = ''error''"
  by (simp_all add: batchEntry_def split: option.splits)

lemma processed_successful:
  "sum_list (map (\<lambda>i. documentsProcessed (batchEntry E tr docs i)) js) =
   sum_list (map documentsInBatch
     (filter (\<lambda>r. status r = ''success'') (map (batchEntry E tr docs) js)))"
  by (induction js) (simp_all add: batchEntry_fields)

lemma processed_le:
  "sum_list (map (\<lambda>i. documentsProcessed (batchEntry E tr docs i)) js) \<le>
   sum_list (map (\<lambda>i. length (batchAt docs i)) js)"
  by (induction js) (simp_all add: batchEntry_fields)

lemma processed_all:
  "filter (\<lambda>r. status r = ''error'') (map (batchEntry E tr docs) js) = [] \<Longrightarrow>
   sum_list (map (\<lambda>i. documentsProcessed (batchEntry E tr docs i)) js) =
   sum_list (map (\<lambda>i. length (batchAt docs i)) js)"
proof (induction js)
  case Nil
  show ?case by simp
next
  case (Cons j js)
  from Cons.prems have s: "status (batchEntry E tr docs j) \<noteq> ''error''"
    and r: "filter (\<lambda>r. status r = ''error'') (map (batchEntry E tr docs) js) = []"
    by (auto split: if_splits)
  from s batchEntry_fields(3) [of E tr docs j]
  have "status (batchEntry E tr docs j) = ''success''" by blast
  then show ?case using Cons.IH [OF r] by (simp add: batchEntry_fields)
qed

lemma sync_Inr:
  assumes "sync E st (Some f) = (Inr resp, st')"
  shows "\<exists>docs tr.
      csvLoad E (trace st @ [WriteFile (tempPath E (trace st) f) (buffer f)])
        (tempPath E (trace st) f) = Inr docs
      \<and> testEmbedding E
          (trace st @ [WriteFile (tempPath E (trace st) f) (buffer f),
                       CsvLoad (tempPath E (trace st) f)]) docs = (None, tr)
      \<and> syncProcess E
          (trace st @ [WriteFile (tempPath E (trace st) f) (buffer f),
                       CsvLoad (tempPath E (trace st) f)]) docs =
          (Inr resp, tr @ loopEvents docs (syncTotalBatches (length docs)))"
proof -
  let ?p = "tempPath E (trace st) f"
  from assms have acc: "mimetype f = ''text/csv'' \<or> endsWith (originalname f) ''.csv''"
    and ini: "isInitialized st"
    by (auto simp: sync_def ensureInitialized_def split: if_splits)
  from assms obtain tr1 where t: "syncTry E (trace st) f ?p = (Inr resp, tr1)"
    unfolding sync_accepted [OF acc ini]
    by (auto split: prod.splits sum.splits)
  then obtain docs where
    c: "csvLoad E (trace st @ [WriteFile ?p (buffer f)]) ?p = Inr docs" and
    p: "syncProcess E (trace st @ [WriteFile ?p (buffer f), CsvLoad ?p]) docs = (Inr resp, tr1)"
    by (auto simp: syncTry_def Let_def split: option.splits sum.splits)
  obtain r tr where e: "testEmbedding E (trace st @ [WriteFile ?p (buffer f), CsvLoad ?p]) docs = (r, tr)"
    by (cases "testEmbedding E (trace st @ [WriteFile ?p (buffer f), CsvLoad ?p]) docs")
  with p have n: "r = None"
    by (cases r) (auto simp: syncProcess_def)
  from p syncProcess_closed [OF e [unfolded n]]
  have "tr1 = tr @ loopEvents docs (syncTotalBatches (length docs))" by simp
  with c e n p show ?thesis by (intro exI [of _ docs] exI [of _ tr] conjI) simp_all
qed

text \<open>
  C1, as the code has it. Whenever \<open>sync\<close> returns a response, \<open>totalDocuments\<close> is the
  number of documents loaded from the CSV, the \<open>documentsInBatch\<close> of the results add up
  to it, and \<open>processedDocuments\<close> is the sum of \<open>documentsProcessed\<close> over the results,
  that is the number of documents in the batches whose upsert succeeded. So
  \<open>processedDocuments\<close> is at most \<open>totalDocuments\<close>, and equals it when no batch failed,
  in particular for a CSV without rows.
\<close>

theorem sync_document_counts:
  assumes "sync E st (Some f) = (Inr resp, st')"
  shows "\<exists>docs.
      csvLoad E (trace st @ [WriteFile (tempPath E (trace st) f) (buffer f)])
        (tempPath E (trace st) f) = Inr docs
      \<and> totalDocuments resp = length docs
      \<and> sum_list (map documentsInBatch (results resp)) = totalDocuments resp
      \<and> processedDocuments resp = sum_list (map documentsProcessed (results resp))
      \<and> processedDocuments resp =
          sum_list (map documentsInBatch
            (filter (\<lambda>r. status r = ''success'') (results resp)))
      \<and> processedDocuments resp \<le> totalDocuments resp
      \<and> (failed (summary resp) = 0 \<longrightarrow> processedDocuments resp = totalDocuments resp)"
proof -
  let ?p = "tempPath E (trace st) f"
  from sync_Inr [OF assms] obtain docs tr where
    c: "csvLoad E (trace st @ [WriteFile ?p (buffer f)]) ?p = Inr docs" and
    e: "testEmbedding E (trace st @ [WriteFile ?p (buffer f), CsvLoad ?p]) docs = (None, tr)" and
    p: "syncProcess E (trace st @ [WriteFile ?p (buffer f), CsvLoad ?p]) docs =
          (Inr resp, tr @ loopEvents docs (syncTotalBatches (length docs)))"
    by blast
  let ?B = "syncTotalBatches (length docs)"
  from p syncProcess_closed [OF e] have
    r1: "totalDocuments resp = length docs" and
    r2: "processedDocuments resp =
           sum_list (map (\<lambda>j. documentsProcessed (batchEntry E tr docs j)) [0..<?B])" and
    r3: "results resp = map (batchEntry E tr docs) [0..<?B]" and
    r4: "failed (summary resp) =
           length (filter (\<lambda>r. status r = ''error'') (map (batchEntry E tr docs) [0..<?B]))"
    by auto
  have total: "sum_list (map (\<lambda>i. length (batchAt docs i)) [0..<?B]) = length docs"
    by (simp add: sum_batch_sizes batches_cover)
  have a: "sum_list (map documentsInBatch (results resp)) = totalDocuments resp"
    unfolding r1 r3 using total by (simp add: comp_def batchEntry_fields(1))
  have b: "processedDocuments resp = sum_list (map documentsProcessed (results resp))"
    unfolding r2 r3 by (simp add: comp_def)
  have d: "processedDocuments resp =
      sum_list (map documentsInBatch (filter (\<lambda>r. status r = ''success'') (results resp)))"
    unfolding r2 r3 by (rule processed_successful)
  have l: "processedDocuments resp \<le> totalDocuments resp"
    unfolding r1 r2 using processed_le [of E tr docs "[0..<?B]"] total by simp
  have z: "failed (summary resp) = 0 \<longrightarrow> processedDocuments resp = totalDocuments resp"
  proof
    assume "failed (summary resp) = 0"
    with r4 have "filter (\<lambda>r. status r = ''error'') (map (batchEntry E tr docs) [0..<?B]) = []"
      by (metis length_0_conv)
    from processed_all [OF this] total show "processedDocuments resp = totalDocuments resp"
      unfolding r1 r2 by simp
  qed
  show ?thesis by (intro exI [of _ docs] conjI c r1 a b d l z)
qed

text \<open>On the sample world: one row, one document processed, no failed batch.\<close>

theorem sync_document_counts_witness:
  "map_sum id (\<lambda>r. (totalDocuments r, processedDocuments r, failed (summary r)))
     (fst (sync sampleWorld readyState (Some sampleUpload))) = Inr (1, 1, 0)
   \<and> csvLoad sampleWorld
       (trace readyState @
        [WriteFile (tempPath sampleWorld (trace readyState) sampleUpload) (buffer sampleUpload)])
       (tempPath sampleWorld (trace readyState) sampleUpload) =
     Inr [sampleDoc ''rent,1200,payment'']"
  using sync_document_counts [OF sample_sync] by (simp add: sample_sync sampleWorld_calls)

text \<open>
  C1 as stated fails when an upsert is rejected: with a vector store that rejects every
  upsert, the CSV with one row is loaded and the response has \<open>totalDocuments = 1\<close> and
  \<open>processedDocuments = 0\<close>.
\<close>

theorem processed_less_than_total_counterexample:
  "map_sum id (\<lambda>r. (totalDocuments r, processedDocuments r))
     (fst (sync noUpsertWorld readyState (Some sampleUpload))) = Inr (1, 0)
   \<and> csvLoad noUpsertWorld
       (trace readyState @
        [WriteFile (tempPath noUpsertWorld (trace readyState) sampleUpload) (buffer sampleUpload)])
       (tempPath noUpsertWorld (trace readyState) sampleUpload) =
     Inr [sampleDoc ''rent,1200,payment'']"
  by (simp add: noUpsert_sync noUpsertWorld_calls)

section \<open>The temporary file\<close>

lemma syncProcess_trace: "\<exists>ext. snd (syncProcess E tr docs) = tr @ ext"
proof (cases "testEmbedding E tr docs")
  case (Pair r tr1)
  then have ext: "\<exists>ext. tr1 = tr @ ext"
    by (auto simp: testEmbedding_def split: list.splits sum.splits)
  show ?thesis
  proof (cases r)
    case None
    with Pair ext syncProcess_closed [of E tr docs tr1] show ?thesis by auto
  next
    case (Some e)
    with Pair ext show ?thesis by (auto simp: syncProcess_def)
  qed
qed

lemma syncTry_trace: "\<exists>mid. snd (syncTry E tr f p) = tr @ WriteFile p (buffer f) # mid"
proof (cases "writeFile E tr p (buffer f)")
  case (Some e)
  then show ?thesis by (simp add: syncTry_def)
next
  case None
  show ?thesis
  proof (cases "csvLoad E (tr @ [WriteFile p (buffer f)]) p")
    case (Inl e)
    with None show ?thesis by (simp add: syncTry_def)
  next
    case (Inr docs)
    from syncProcess_trace [of E "(tr @ [WriteFile p (buffer f)]) @ [CsvLoad p]" docs]
    obtain ext where
      "snd (syncProcess E ((tr @ [WriteFile p (buffer f)]) @ [CsvLoad p]) docs) =
         ((tr @ [WriteFile p (buffer f)]) @ [CsvLoad p]) @ ext"
      by blast
    with None Inr show ?thesis by (simp add: syncTry_def)
  qed
qed

text \<open>
  C8. For every call of \<open>sync\<close> that gets to the temporary file (the file passes the CSV
  check, the controller is initialised, and \<^verbatim>\<open>path.join\<close> returns a path, which is never
  the empty string), the new events of the trace start with the write of the temporary
  file and end with \<^verbatim>\<open>unlink\<close> on the same path, whatever happens in between: a
  response, failed batches, or an error thrown during the processing.
\<close>

theorem temp_file_unlinked:
  assumes "mimetype f = ''text/csv'' \<or> endsWith (originalname f) ''.csv''"
      and "isInitialized st"
      and "tempPath E (trace st) f \<noteq> []"
  shows "\<exists>mid. trace (snd (sync E st (Some f))) =
           trace st @ WriteFile (tempPath E (trace st) f) (buffer f) # mid @
           [Unlink (tempPath E (trace st) f)]"
proof -
  let ?p = "tempPath E (trace st) f"
  from syncTry_trace [of E "trace st" f ?p] obtain mid where
    m: "snd (syncTry E (trace st) f ?p) = trace st @ WriteFile ?p (buffer f) # mid"
    by blast
  have "trace (snd (sync E st (Some f))) = snd (syncTry E (trace st) f ?p) @ [Unlink ?p]"
    unfolding sync_accepted [OF assms(1,2)] using assms(3)
    by (simp split: prod.splits)
  with m show ?thesis by simp
qed

text \<open>
  The last call is the \<^verbatim>\<open>unlink\<close> of the temporary file on the sample world (success),
  with every upsert rejected (a response with a failed batch) and with the embedding
  service down (a BadRequestException).
\<close>

theorem temp_file_unlinked_witness:
  "last (trace (snd (sync sampleWorld readyState (Some sampleUpload)))) = Unlink sampleTempPath
   \<and> last (trace (snd (sync noUpsertWorld readyState (Some sampleUpload)))) = Unlink sampleTempPath
   \<and> last (trace (snd (sync noEmbeddingWorld readyState (Some sampleUpload)))) =
       Unlink sampleTempPath
   \<and> hd (trace (snd (sync noEmbeddingWorld readyState (Some sampleUpload)))) =
       WriteFile sampleTempPath (buffer sampleUpload)"
proof -
  have a: "mimetype sampleUpload = ''text/csv'' \<or> endsWith (originalname sampleUpload) ''.csv''"
    by (simp add: sampleUpload_accepted)
  have n: "tempPath noEmbeddingWorld (trace readyState) sampleUpload \<noteq> []"
    by (simp add: sample_tempPath sampleTempPath_nonempty)
  from temp_file_unlinked [OF a sampleUpload_accepted(2) n] obtain mid where
    "trace (snd (sync noEmbeddingWorld readyState (Some sampleUpload))) =
       trace readyState @
       WriteFile (tempPath noEmbeddingWorld (trace readyState) sampleUpload)
         (buffer sampleUpload) # mid @
       [Unlink (tempPath noEmbeddingWorld (trace readyState) sampleUpload)]"
    by blast
  then have "last (trace (snd (sync noEmbeddingWorld readyState (Some sampleUpload)))) =
       Unlink sampleTempPath
     \<and> hd (trace (snd (sync noEmbeddingWorld readyState (Some sampleUpload)))) =
       WriteFile sampleTempPath (buffer sampleUpload)"
    by (simp add: sample_tempPath sampleUpload_accepted)
  then show ?thesis by (simp add: sample_sync noUpsert_sync)
qed

end
